theory Spec2Isabelle
  imports Main "HOL-Library.Sublist" "HOL-Library.AList"
begin

section \<open>JavaScript strings and the built-ins the engine calls\<close>

text \<open>
  A JavaScript string is a sequence of UTF-16 code units. A code unit is an integer
  here, so that the arrow U+2192 of the choice grammar and the Unicode white space that
  \<^verbatim>\<open>trim\<close> and \<^verbatim>\<open>\s\<close> remove are single elements, as they are
  for the engine. \<open>js\<close> turns an ASCII literal into its code units.
\<close>

type_synonym jsstring = "int list"

abbreviation (input) js :: "string \<Rightarrow> jsstring" where
  "js s \<equiv> map of_char s"

abbreviation (input) COLON :: int where "COLON \<equiv> 58"
abbreviation (input) NEWLINE :: int where "NEWLINE \<equiv> 10"

text \<open>
  A value handed to a function that tests \<^verbatim>\<open>typeof x !== 'string'\<close>: either a
  string or anything else (\<^verbatim>\<open>undefined\<close>, \<^verbatim>\<open>null\<close>, a number, ...).
\<close>

datatype jsarg = NotAString | Str jsstring

text \<open>What a function throws: \<^verbatim>\<open>new Error(message)\<close>, or the TypeError of reading a property of
  \<^verbatim>\<open>null\<close> or \<^verbatim>\<open>undefined\<close>.\<close>

datatype jserror = Error jsstring | TypeError

text \<open>ECMAScript WhiteSpace and LineTerminator: what \<^verbatim>\<open>trim\<close> strips and \<^verbatim>\<open>\s\<close> matches.\<close>

definition is_space :: "int \<Rightarrow> bool" where
  "is_space c \<longleftrightarrow>
     c = 9 \<or> c = 10 \<or> c = 11 \<or> c = 12 \<or> c = 13 \<or> c = 32 \<or> c = 160 \<or> c = 5760 \<or>
     (8192 \<le> c \<and> c \<le> 8202) \<or> c = 8232 \<or> c = 8233 \<or> c = 8239 \<or> c = 8287 \<or>
     c = 12288 \<or> c = 65279"

definition trimStart :: "jsstring \<Rightarrow> jsstring" where
  "trimStart s = dropWhile is_space s"

definition trimEnd :: "jsstring \<Rightarrow> jsstring" where
  "trimEnd s = rev (dropWhile is_space (rev s))"

definition trim :: "jsstring \<Rightarrow> jsstring" where
  "trim s = trimEnd (trimStart s)"

text \<open>\<^verbatim>\<open>s.split(sep)\<close> for a one-character separator: never an empty array.\<close>

fun split :: "int \<Rightarrow> jsstring \<Rightarrow> jsstring list" where
  "split sep [] = [[]]"
| "split sep (c # s) =
     (if c = sep then [] # split sep s
      else (case split sep s of [] \<Rightarrow> [[c]] | p # ps \<Rightarrow> (c # p) # ps))"

text \<open>\<^verbatim>\<open>s.includes(pat)\<close>; \<^verbatim>\<open>s.startsWith(pat)\<close> is \<^const>\<open>prefix\<close>.\<close>

fun includes_js :: "jsstring \<Rightarrow> jsstring \<Rightarrow> bool" where
  "includes_js [] pat = (pat = [])"
| "includes_js (c # s) pat = (prefix pat (c # s) \<or> includes_js s pat)"

text \<open>\<^verbatim>\<open>xs.join(sep)\<close> for a one-character separator.\<close>

fun join :: "int \<Rightarrow> jsstring list \<Rightarrow> jsstring" where
  "join sep [] = []"
| "join sep [x] = x"
| "join sep (x # y # ys) = x @ sep # join sep (y # ys)"

text \<open>
  \<^verbatim>\<open>parseInt(s)\<close> with no radix: leading white space is skipped, then an optional
  sign, then an optional \<^verbatim>\<open>0x\<close>/\<^verbatim>\<open>0X\<close>, then the longest run of digits of
  the radix. No digit gives \<^verbatim>\<open>NaN\<close>, which is \<open>None\<close> here. The value is the exact
  integer: the rounding of integers beyond \<open>2^53\<close> to a double is not modelled.
\<close>

definition digit_value :: "int \<Rightarrow> int option" where
  "digit_value c =
     (if 48 \<le> c \<and> c \<le> 57 then Some (c - 48)
      else if 97 \<le> c \<and> c \<le> 122 then Some (c - 87)
      else if 65 \<le> c \<and> c \<le> 90 then Some (c - 55)
      else None)"

definition is_radix_digit :: "int \<Rightarrow> int \<Rightarrow> bool" where
  "is_radix_digit r c = (case digit_value c of None \<Rightarrow> False | Some d \<Rightarrow> d < r)"

fun digits_value :: "int \<Rightarrow> int \<Rightarrow> jsstring \<Rightarrow> int" where
  "digits_value r acc [] = acc"
| "digits_value r acc (c # s) =
     digits_value r (acc * r + (case digit_value c of None \<Rightarrow> 0 | Some d \<Rightarrow> d)) s"

definition js_parseInt :: "jsstring \<Rightarrow> int option" where
  "js_parseInt str =
     (let s = trimStart str;
          neg = (s \<noteq> [] \<and> hd s = 45);
          s1 = (if s \<noteq> [] \<and> (hd s = 43 \<or> hd s = 45) then tl s else s);
          hex = (prefix (js ''0x'') s1 \<or> prefix (js ''0X'') s1);
          r = (if hex then 16 else 10);
          s2 = (if hex then drop 2 s1 else s1);
          z = takeWhile (is_radix_digit r) s2
      in if z = [] then None
         else Some ((if neg then - 1 else 1) * digits_value r 0 z))"

text \<open>
  \<^verbatim>\<open>parseInt(x)\<close> where \<^verbatim>\<open>x\<close> may be \<^verbatim>\<open>undefined\<close> (a
  destructured array element that is not there): \<^verbatim>\<open>parseInt(undefined)\<close> reads the
  text \<^verbatim>\<open>"undefined"\<close> and is \<^verbatim>\<open>NaN\<close>.
\<close>

definition parseInt_arg :: "jsstring option \<Rightarrow> int option" where
  "parseInt_arg x = (case x of None \<Rightarrow> js_parseInt (js ''undefined'') | Some s \<Rightarrow> js_parseInt s)"

text \<open>\<^verbatim>\<open>parseInt(x) || 1\<close>: \<^verbatim>\<open>NaN\<close> and \<open>0\<close> are falsy.\<close>

definition parseInt_or_1 :: "jsstring option \<Rightarrow> int" where
  "parseInt_or_1 x = (case parseInt_arg x of None \<Rightarrow> 1 | Some n \<Rightarrow> if n = 0 then 1 else n)"

section \<open>InventoryManager\<close>

text \<open>
  \<^verbatim>\<open>this.inventory\<close> is an object used as a dictionary from item name to quantity:
  an association list in insertion order, read with \<^const>\<open>map_of\<close>, written with
  \<^const>\<open>AList.update\<close> and \<^const>\<open>AList.delete\<close>.
  Quantities are integers (the arithmetic of the class is exact on them up to \<open>2^53\<close>);
  item names that are properties of \<^verbatim>\<open>Object.prototype\<close> are outside the model.
  Every method returns its boolean together with the inventory it leaves behind.
\<close>

type_synonym inventory = "(jsstring \<times> int) list"

definition getItemQuantity :: "inventory \<Rightarrow> jsstring \<Rightarrow> int" where
  "getItemQuantity invt itemName = (case map_of invt itemName of None \<Rightarrow> 0 | Some v \<Rightarrow> v)"

definition hasItem :: "inventory \<Rightarrow> jsstring \<Rightarrow> int \<Rightarrow> bool" where
  "hasItem invt itemName requiredQuantity =
     (if itemName = [] then False else getItemQuantity invt itemName \<ge> requiredQuantity)"

definition addItem :: "inventory \<Rightarrow> jsstring \<Rightarrow> int \<Rightarrow> bool \<times> inventory" where
  "addItem invt itemName quantity =
     (if itemName = [] \<or> quantity \<le> 0 then (False, invt)
      else (True, AList.update itemName (getItemQuantity invt itemName + quantity) invt))"

definition removeItem :: "inventory \<Rightarrow> jsstring \<Rightarrow> int \<Rightarrow> bool \<times> inventory" where
  "removeItem invt itemName quantity =
     (if itemName = [] \<or> quantity \<le> 0 then (False, invt)
      else if \<not> hasItem invt itemName quantity then (False, invt)
      else (let v = getItemQuantity invt itemName - quantity
            in if v \<le> 0 then (True, AList.delete itemName invt)
               else (True, AList.update itemName v invt)))"

text \<open>
  \<^verbatim>\<open>const [itemName, quantityStr] = parts\<close>: the first two elements, each
  \<^verbatim>\<open>undefined\<close> (\<open>None\<close>) when the array is too short.
\<close>

definition destructure2 :: "jsstring list \<Rightarrow> jsstring option \<times> jsstring option" where
  "destructure2 parts =
     (case parts of [] \<Rightarrow> (None, None) | [a] \<Rightarrow> (Some a, None) | a # b # _ \<Rightarrow> (Some a, Some b))"

text \<open>\<^verbatim>\<open>hasItem\<close> on a possibly undefined name: \<^verbatim>\<open>!itemName\<close> holds for \<^verbatim>\<open>undefined\<close>.\<close>

definition hasItem_arg :: "inventory \<Rightarrow> jsstring option \<Rightarrow> int \<Rightarrow> bool" where
  "hasItem_arg invt itemName q = (case itemName of None \<Rightarrow> False | Some n \<Rightarrow> hasItem invt n q)"

definition addItem_arg :: "inventory \<Rightarrow> jsstring option \<Rightarrow> int \<Rightarrow> bool \<times> inventory" where
  "addItem_arg invt itemName q = (case itemName of None \<Rightarrow> (False, invt) | Some n \<Rightarrow> addItem invt n q)"

definition removeItem_arg :: "inventory \<Rightarrow> jsstring option \<Rightarrow> int \<Rightarrow> bool \<times> inventory" where
  "removeItem_arg invt itemName q =
     (case itemName of None \<Rightarrow> (False, invt) | Some n \<Rightarrow> removeItem invt n q)"

definition checkInventoryCondition :: "inventory \<Rightarrow> jsarg \<Rightarrow> bool" where
  "checkInventoryCondition invt condition =
     (case condition of
        NotAString \<Rightarrow> True
      | Str c \<Rightarrow>
          if c = [] then True
          else if includes_js c [COLON] then
            (let (itemName, quantityStr) = destructure2 (map trim (split COLON c));
                 quantity = parseInt_or_1 quantityStr
             in hasItem_arg invt itemName quantity)
          else hasItem invt (trim c) 1)"

definition applyInventoryConsequence :: "inventory \<Rightarrow> jsarg \<Rightarrow> bool \<times> inventory" where
  "applyInventoryConsequence invt consequence =
     (case consequence of
        NotAString \<Rightarrow> (False, invt)
      | Str c \<Rightarrow>
          if c = [] then (False, invt)
          else
            (let trimmed = trim c in
             if prefix (js ''USE '') trimmed then
               (let itemSpec = trim (drop 4 trimmed);
                    (itemName, quantityStr) =
                       (if includes_js itemSpec [COLON]
                        then destructure2 (map trim (split COLON itemSpec))
                        else destructure2 [itemSpec, js ''1'']);
                    quantity = parseInt_or_1 quantityStr
                in removeItem_arg invt itemName quantity)
             else if prefix (js ''SET '') trimmed \<and> includes_js trimmed (js ''inventory:'') then
               (let spec = trim (drop 4 trimmed) in
                if prefix (js ''inventory:'') spec then
                  (let itemSpec = drop 10 spec;
                       (itemName, quantityStr) = destructure2 (map trim (split COLON itemSpec));
                       quantity = parseInt_or_1 quantityStr
                   in if quantity > 0 then addItem_arg invt itemName quantity
                      else if quantity < 0 then removeItem_arg invt itemName (abs quantity)
                      else (False, invt))
                else (False, invt))
             else (False, invt)))"

text \<open>
  The two condition forms in the specification's words, for comparison with
  \<^const>\<open>checkInventoryCondition\<close>: \<^verbatim>\<open><item>\<close> is a text with an item name and no
  colon; \<^verbatim>\<open><item>:<qty>\<close> is an item name, one colon and a quantity written in
  decimal digits.
\<close>

definition spec_item_form :: "jsstring \<Rightarrow> bool" where
  "spec_item_form c \<longleftrightarrow> trim c \<noteq> [] \<and> \<not> includes_js c [COLON]"

definition spec_item_qty_form :: "jsstring \<Rightarrow> bool" where
  "spec_item_qty_form c \<longleftrightarrow>
     (case split COLON c of
        [item, qty] \<Rightarrow> trim item \<noteq> [] \<and> trim qty \<noteq> [] \<and>
                        list_all (\<lambda>d. 48 \<le> d \<and> d \<le> 57) (trim qty)
      | _ \<Rightarrow> False)"

section \<open>The parsed document\<close>

text \<open>
  The object that \<^verbatim>\<open>parseFile\<close> builds. An object used as a dictionary is an association
  list in insertion order, read with \<^const>\<open>map_of\<close> and written with \<^const>\<open>AList.update\<close>.
  A number is kept as written, a decimal mantissa and a power of ten \<open>Dec m e\<close> for
  \<open>m * 10 ^ e\<close>. Only the tests \<^verbatim>\<open>isNaN\<close> and truthiness read it; truthiness asks
  whether the double that the literal is rounded to is zero.
\<close>

datatype jsnumber = NaN | PlusInfinity | MinusInfinity | Dec int int

datatype jsvalue = VNumber jsnumber | VString jsstring

type_synonym keyValues = "(jsstring \<times> jsvalue) list"

record choice =
  label :: jsstring
  description :: jsstring
  target :: jsstring
  conditions :: "jsstring list"
  consequences :: "jsstring list"

record step =
  narrative :: jsstring
  choices :: "choice list"

record endings =
  success :: jsstring
  failure :: jsstring
  neutral :: jsstring

record conditionRule =
  condition :: jsstring
  action :: jsstring

record randomEvent =
  chance :: jsnumber
  outcome :: jsstring

record gameData =
  gameName :: jsstring
  mainMenuItems :: "jsstring list"
  gd_inventory :: keyValues
  stats :: keyValues
  variables :: keyValues
  steps :: "(jsstring \<times> step) list"
  endings :: endings
  gd_conditions :: "conditionRule list"
  checkpoints :: "jsstring list"
  randomEvents :: "randomEvent list"
  gd_consequences :: "keyValues list"
  askForName :: bool

text \<open>\<^verbatim>\<open>gameData.endings[endingType]\<close>: the object has exactly three properties.\<close>

definition endings_lookup :: "endings \<Rightarrow> jsstring \<Rightarrow> jsstring option" where
  "endings_lookup e k =
     (if k = js ''success'' then Some (success e)
      else if k = js ''failure'' then Some (failure e)
      else if k = js ''neutral'' then Some (neutral e)
      else None)"

text \<open>
  \<^verbatim>\<open>s.replace(pat, rep)\<close> with a string pattern replaces the first occurrence;
  \<^verbatim>\<open>s.replace(/pat/g, rep)\<close> with a literal pattern replaces every occurrence, from
  left to right (the replacement is taken literally: the \<^verbatim>\<open>$\<close> patterns of a replacement
  text are not modelled). \<^verbatim>\<open>toLowerCase\<close> is modelled on the ASCII letters.
\<close>

fun replace_first :: "jsstring \<Rightarrow> jsstring \<Rightarrow> jsstring \<Rightarrow> jsstring" where
  "replace_first pat rep [] = (if pat = [] then rep else [])"
| "replace_first pat rep (c # s) =
     (if prefix pat (c # s) then rep @ drop (length pat) (c # s)
      else c # replace_first pat rep s)"

fun replace_all_from :: "jsstring \<Rightarrow> jsstring \<Rightarrow> nat \<Rightarrow> jsstring \<Rightarrow> jsstring" where
  "replace_all_from pat rep n [] = []"
| "replace_all_from pat rep (Suc n) (c # s) = replace_all_from pat rep n s"
| "replace_all_from pat rep 0 (c # s) =
     (if prefix pat (c # s) then rep @ replace_all_from pat rep (length pat - 1) s
      else c # replace_all_from pat rep 0 s)"

definition replace_USER :: "jsstring \<Rightarrow> jsstring \<Rightarrow> jsstring" where
  "replace_USER name s = replace_all_from (js ''[USER]'') name 0 s"

definition toLowerCase :: "jsstring \<Rightarrow> jsstring" where
  "toLowerCase s = map (\<lambda>c. if 65 \<le> c \<and> c \<le> 90 then c + 32 else c) s"

text \<open>\<^verbatim>\<open>xs[i]\<close>: \<^verbatim>\<open>undefined\<close> (\<open>None\<close>) out of range.\<close>

definition index :: "'a list \<Rightarrow> nat \<Rightarrow> 'a option" where
  "index xs i = (if i < length xs then Some (xs ! i) else None)"

section \<open>Session state: gameState.js and menuHandler.js\<close>

text \<open>
  The module-level variables of \<^verbatim>\<open>menuHandler.js\<close> (menu, \<^verbatim>\<open>isGoingBack\<close>, and the
  \<^verbatim>\<open>currentStep\<close> property it adds to the document), of \<^verbatim>\<open>gameState.js\<close> (history,
  user name, statistics) and the inventory of the global \<^verbatim>\<open>InventoryManager\<close>, in one
  record that every operation takes and returns. The document itself is a separate argument:
  the traversal only reads it. \<open>terminal\<close> records what is sent to the screen; what
  \<^verbatim>\<open>addNewPromptLine\<close> is called with is kept as \<open>PromptLine\<close>, the error shown
  when a document does not parse as \<open>ParseFailed\<close>. \<^verbatim>\<open>addNewPromptLine\<close> of
  \<^verbatim>\<open>terminal.js\<close> declares the terminal as its only parameter: a message passed to it
  is recorded here as the call has it, and the function draws a new prompt without it.
\<close>

datatype menuType = Main | Options | FontSize | FontColor | StoryChoices | EndingOptions | NoMenu

datatype uiEvent =
    Cleared
  | Appended jsstring
  | PromptLine "jsstring option"
  | FontSizeSet jsstring
  | FontColorSet jsstring
  | FileDialog
  | ParseFailed jserror

record session =
  selectedMenuItemIndex :: nat
  currentMenuItems :: "jsstring list"
  currentMenuType :: menuType
  isGoingBack :: bool
  currentStep :: "jsstring option"
  storyHistory :: "jsstring list"
  currentHistoryIndex :: int
  gameStats :: "int \<times> int"
  userName :: jsstring
  inventory :: inventory
  terminal :: "uiEvent list"

definition addNewPromptLine :: "jsstring option \<Rightarrow> session \<Rightarrow> session" where
  "addNewPromptLine msg s = s\<lparr>terminal := terminal s @ [PromptLine msg]\<rparr>"

definition emit :: "uiEvent list \<Rightarrow> session \<Rightarrow> session" where
  "emit es s = s\<lparr>terminal := terminal s @ es\<rparr>"

subsection \<open>gameState.js: history\<close>

text \<open>\<^verbatim>\<open>xs.slice(0, e)\<close>: a negative end counts from the end of the array.\<close>

definition slice0 :: "'a list \<Rightarrow> int \<Rightarrow> 'a list" where
  "slice0 xs e = (if e < 0 then take (nat (int (length xs) + e)) xs else take (nat e) xs)"

definition pushStoryToHistory :: "jsstring \<Rightarrow> session \<Rightarrow> session" where
  "pushStoryToHistory story s =
     (let h = (if currentHistoryIndex s < int (length (storyHistory s)) - 1
               then slice0 (storyHistory s) (currentHistoryIndex s + 1)
               else storyHistory s);
          h' = h @ [story]
      in s\<lparr>storyHistory := h', currentHistoryIndex := int (length h') - 1\<rparr>)"

definition goBackInHistory :: "session \<Rightarrow> jsstring option \<times> session" where
  "goBackInHistory s =
     (if currentHistoryIndex s > 0
      then (index (storyHistory s) (nat (currentHistoryIndex s - 1)),
            s\<lparr>currentHistoryIndex := currentHistoryIndex s - 1\<rparr>)
      else (None, s))"

definition canGoBack :: "session \<Rightarrow> bool" where
  "canGoBack s \<longleftrightarrow> currentHistoryIndex s > 0"

definition clearStoryHistory :: "session \<Rightarrow> session" where
  "clearStoryHistory s = s\<lparr>storyHistory := [], currentHistoryIndex := - 1\<rparr>"

text \<open>Truthiness of a string or \<^verbatim>\<open>undefined\<close>/\<^verbatim>\<open>null\<close>: a non-empty string.\<close>

definition truthy :: "jsstring option \<Rightarrow> bool" where
  "truthy x = (case x of None \<Rightarrow> False | Some t \<Rightarrow> t \<noteq> [])"

subsection \<open>gameState.js: saving and loading\<close>

text \<open>
  What \<^verbatim>\<open>getSerializableGameState\<close> returns, and what \<^verbatim>\<open>JSON.parse\<close> gives back for
  the text that was written from it: a field that may be missing from a save is an option.
\<close>

record inventoryData =
  saved_items :: "inventory option"
  totalItems :: int

record savedState =
  saved_userName :: "jsstring option"
  saved_storyHistory :: "jsstring list option"
  saved_currentHistoryIndex :: "int option"
  saved_currentStep :: "jsstring option"
  saved_gameStats :: "(int \<times> int) option"
  saved_inventory :: "inventoryData option"

definition getTotalItemCount :: "inventory \<Rightarrow> int" where
  "getTotalItemCount invt = sum_list (map snd invt)"

definition serialize :: "inventory \<Rightarrow> inventoryData" where
  "serialize invt = \<lparr>saved_items = Some invt, totalItems = getTotalItemCount invt\<rparr>"

definition deserialize :: "inventoryData option \<Rightarrow> inventory" where
  "deserialize data =
     (case data of
        None \<Rightarrow> []
      | Some d \<Rightarrow> (case saved_items d of None \<Rightarrow> [] | Some invt \<Rightarrow> invt))"

definition getSerializableGameState :: "jsstring option \<Rightarrow> session \<Rightarrow> savedState" where
  "getSerializableGameState step s =
     \<lparr>saved_userName = Some (userName s),
      saved_storyHistory = Some (storyHistory s),
      saved_currentHistoryIndex = Some (currentHistoryIndex s),
      saved_currentStep = step,
      saved_gameStats = Some (gameStats s),
      saved_inventory = Some (serialize (inventory s))\<rparr>"

text \<open>
  \<^verbatim>\<open>localStorage\<close>: from a key to the state whose JSON text is stored under it.
  \<^verbatim>\<open>loadGameState(gameName, slot)\<close> reads the key built from its two arguments and
  restores the session from what it finds; it finds nothing when the key is absent.
\<close>

type_synonym localStorage = "jsstring \<rightharpoonup> savedState"

definition savestateKey :: "jsstring \<Rightarrow> jsstring \<Rightarrow> jsstring" where
  "savestateKey gname slot = js ''piGameSavestate_'' @ gname @ js ''_'' @ slot"

definition loadGameState ::
  "localStorage \<Rightarrow> jsstring \<Rightarrow> jsstring \<Rightarrow> session \<Rightarrow> savedState option \<times> session" where
  "loadGameState store gname slot s =
     (case store (savestateKey gname slot) of
        None \<Rightarrow> (None, s)
      | Some g \<Rightarrow>
          (let s1 = s\<lparr>userName := (if truthy (saved_userName g) then the (saved_userName g) else []),
                        storyHistory := (case saved_storyHistory g of None \<Rightarrow> [] | Some h \<Rightarrow> h),
                        currentHistoryIndex :=
                          (case saved_currentHistoryIndex g of None \<Rightarrow> - 1 | Some i \<Rightarrow> i),
                        gameStats := (case saved_gameStats g of None \<Rightarrow> (0, 0) | Some st \<Rightarrow> st)\<rparr>;
               s2 = (case saved_inventory g of
                       None \<Rightarrow> s1
                     | Some d \<Rightarrow> s1\<lparr>inventory := deserialize (Some d)\<rparr>)
           in (Some g, s2)))"

subsection \<open>menuHandler.js: displaying a menu or a step\<close>

definition optionsMenuItems :: "jsstring list" where
  "optionsMenuItems = [js ''Font Size'', js ''Font Color'', js ''Back'']"

definition fontSizeMenuItems :: "jsstring list" where
  "fontSizeMenuItems =
     [js ''12px'', js ''14px'', js ''16px (Default)'', js ''18px'', js ''20px'', js ''Back'']"

definition fontColorMenuItems :: "jsstring list" where
  "fontColorMenuItems =
     [js ''Red'', js ''Orange'', js ''Yellow'', js ''Green'', js ''Blue'', js ''Indigo'',
      js ''Violet'', js ''White (Default)'', js ''Cyan'', js ''Back'']"

text \<open>
  The fade-out timers only delay what is drawn; each function is modelled by the state it
  leaves once its timers have run. The clearing of the screen that \<^verbatim>\<open>displayStoryAndMenu\<close>
  defers is not recorded.
\<close>

definition displayMainMenu :: "gameData \<Rightarrow> session \<Rightarrow> session" where
  "displayMainMenu gd s =
     emit [Appended (js ''Main Menu:'' @ [NEWLINE])]
       ((clearStoryHistory (emit [Cleared] s))
          \<lparr>currentMenuItems := mainMenuItems gd, currentMenuType := Main,
           selectedMenuItemIndex := 0\<rparr>)"

definition displayOptionsMenu :: "session \<Rightarrow> session" where
  "displayOptionsMenu s =
     emit [Appended (js ''Options Menu:'' @ [NEWLINE])]
       ((emit [Cleared] s)
          \<lparr>currentMenuItems := optionsMenuItems, currentMenuType := Options,
           selectedMenuItemIndex := 0\<rparr>)"

definition displayFontSizeMenu :: "session \<Rightarrow> session" where
  "displayFontSizeMenu s =
     emit [Appended (js ''Font Size:'' @ [NEWLINE])]
       ((emit [Cleared] s)
          \<lparr>currentMenuItems := fontSizeMenuItems, currentMenuType := FontSize,
           selectedMenuItemIndex := 0\<rparr>)"

definition displayFontColorMenu :: "session \<Rightarrow> session" where
  "displayFontColorMenu s =
     emit [Appended (js ''Font Color:'' @ [NEWLINE])]
       ((emit [Cleared] s)
          \<lparr>currentMenuItems := fontColorMenuItems, currentMenuType := FontColor,
           selectedMenuItemIndex := 0\<rparr>)"

text \<open>The text of a menu entry or a narrative, with \<^verbatim>\<open>[USER]\<close> replaced when a name is set.\<close>

definition withUserName :: "session \<Rightarrow> jsstring \<Rightarrow> jsstring" where
  "withUserName s t = (if userName s \<noteq> [] then replace_USER (userName s) t else t)"

definition choiceMenuItem :: "session \<Rightarrow> choice \<Rightarrow> jsstring" where
  "choiceMenuItem s c = label c @ js '') '' @ withUserName s (description c)"

definition displayStoryAndMenu :: "gameData \<Rightarrow> jsstring \<Rightarrow> session \<Rightarrow> session" where
  "displayStoryAndMenu gd stepKey s =
     (let s1 = (case currentStep s of
                  None \<Rightarrow> s
                | Some cur \<Rightarrow> if \<not> isGoingBack s \<and> cur \<noteq> [] then pushStoryToHistory cur s else s);
          s2 = s1\<lparr>isGoingBack := False, currentStep := Some stepKey\<rparr>
      in case map_of (steps gd) stepKey of
           None \<Rightarrow> addNewPromptLine (Some (js ''Error: Step '' @ stepKey @ js '' not found.'')) s2
         | Some st \<Rightarrow>
             (let s3 = emit [Appended (withUserName s2 (narrative st) @ [NEWLINE, NEWLINE])] s2
              in if choices st \<noteq> [] then
                   (let items = map (choiceMenuItem s3) (choices st);
                        items' =
                          (if canGoBack s3
                           then items @
                                [((97 + int (length items)) mod 65536) # js '') Return to the previous page'']
                           else items)
                    in s3\<lparr>currentMenuItems := items', currentMenuType := StoryChoices,
                          selectedMenuItemIndex := 0\<rparr>)
                 else (addNewPromptLine None s3)\<lparr>currentMenuItems := [], currentMenuType := NoMenu\<rparr>))"

subsection \<open>menuHandler.js: handleMenuNavigation\<close>

datatype key = ArrowUp | ArrowDown | Enter | OtherKey

text \<open>Clearing the screen for the command prompt and switching the menu off.\<close>

definition toCommandPrompt :: "session \<Rightarrow> session" where
  "toCommandPrompt s = (addNewPromptLine None (emit [Cleared] s))\<lparr>currentMenuItems := []\<rparr>"

text \<open>
  The back navigation, as both the \<^verbatim>\<open>story_choices\<close> and the \<^verbatim>\<open>ending_options\<close>
  branch write it: set \<^verbatim>\<open>isGoingBack\<close>, step the history back, and show the step found.
\<close>

definition returnToPreviousPage :: "gameData \<Rightarrow> session \<Rightarrow> session" where
  "returnToPreviousPage gd s =
     (let (previousStep, s1) = goBackInHistory (s\<lparr>isGoingBack := True\<rparr>)
      in case previousStep of
           None \<Rightarrow> addNewPromptLine (Some (js ''No previous page to return to.'')) s1
         | Some p \<Rightarrow>
             if p \<noteq> [] then displayStoryAndMenu gd p s1
             else addNewPromptLine (Some (js ''No previous page to return to.'')) s1)"

text \<open>
  \<^verbatim>\<open>askUserName\<close> resolves to the trimmed text the player types; the typed text is an
  argument of the model.
\<close>

definition mainMenuEnter :: "gameData \<Rightarrow> jsstring \<Rightarrow> session \<Rightarrow> session" where
  "mainMenuEnter gd typed s =
     (case index (currentMenuItems s) (selectedMenuItemIndex s) of
        None \<Rightarrow> addNewPromptLine None s
      | Some selectedItem \<Rightarrow>
          if selectedItem = js ''Start New Game'' then
            (let s1 = (if askForName gd then s\<lparr>userName := trim typed\<rparr> else s)
             in displayStoryAndMenu gd (js ''1'') (s1\<lparr>currentStep := Some (js ''1'')\<rparr>))
          else if selectedItem = js ''Load Game'' then emit [FileDialog] s
          else if selectedItem = js ''Options'' then displayOptionsMenu s
          else if selectedItem = js ''Exit'' then toCommandPrompt s
          else addNewPromptLine None s)"

definition optionsEnter :: "session \<Rightarrow> session" where
  "optionsEnter s =
     (case index (currentMenuItems s) (selectedMenuItemIndex s) of
        None \<Rightarrow> addNewPromptLine None s
      | Some selectedItem \<Rightarrow>
          if selectedItem = js ''Font Size'' then displayFontSizeMenu s
          else if selectedItem = js ''Font Color'' then displayFontColorMenu s
          else if selectedItem = js ''Back'' then toCommandPrompt s
          else addNewPromptLine None s)"

definition fontSizeEnter :: "session \<Rightarrow> session" where
  "fontSizeEnter s =
     (case index (currentMenuItems s) (selectedMenuItemIndex s) of
        None \<Rightarrow> addNewPromptLine None s
      | Some selectedItem \<Rightarrow>
          if selectedItem \<in> set [js ''12px'', js ''14px'', js ''16px (Default)'', js ''18px'', js ''20px'']
          then displayOptionsMenu
                 (emit [FontSizeSet (replace_first (js '' (Default)'') [] selectedItem)] s)
          else if selectedItem = js ''Back'' then displayOptionsMenu s
          else addNewPromptLine None s)"

definition fontColorEnter :: "session \<Rightarrow> session" where
  "fontColorEnter s =
     (case index (currentMenuItems s) (selectedMenuItemIndex s) of
        None \<Rightarrow> addNewPromptLine None s
      | Some selectedItem \<Rightarrow>
          if selectedItem \<in> set [js ''Red'', js ''Orange'', js ''Yellow'', js ''Green'', js ''Blue'',
                                js ''Indigo'', js ''Violet'', js ''White (Default)'', js ''Cyan'']
          then displayOptionsMenu
                 (emit [FontColorSet (replace_first (js '' (Default)'') [] selectedItem)] s)
          else if selectedItem = js ''Back'' then displayOptionsMenu s
          else addNewPromptLine None s)"

text \<open>
  The \<^verbatim>\<open>story_choices\<close> branch. The entry under the cursor is a choice of the current
  step when the step has a choice at that position; its conditions and consequences are
  not read. Otherwise the text of the entry decides between going back and
  \<^verbatim>\<open>Invalid choice.\<close>; reading the text of an entry that is not there is a TypeError.
\<close>

definition storyChoicesEnter :: "gameData \<Rightarrow> session \<Rightarrow> jserror + session" where
  "storyChoicesEnter gd s =
     (let choiceIndex = selectedMenuItemIndex s;
          stepObj = (case currentStep s of None \<Rightarrow> None | Some cur \<Rightarrow> map_of (steps gd) cur);
          picked = (case stepObj of None \<Rightarrow> None | Some st \<Rightarrow> index (choices st) choiceIndex)
      in case picked of
           Some c \<Rightarrow>
             (let targetStep = replace_first (js ''STEP_'') [] (target c) in
              if prefix (js ''ENDING_'') targetStep then
                (let endingType = toLowerCase (replace_first (js ''ENDING_'') [] targetStep)
                 in case endings_lookup (endings gd) endingType of
                      None \<Rightarrow>
                        Inr (addNewPromptLine
                               (Some (js ''Error: Ending '' @ endingType @ js '' not found.'')) s)
                    | Some endingText \<Rightarrow>
                        if endingText \<noteq> [] then
                          Inr ((emit [Cleared, Appended (endingText @ [NEWLINE, NEWLINE]),
                                      Appended (js ''Congratulations! You completed '' @ gameName gd @
                                                js ''!'' @ [NEWLINE, NEWLINE])] s)
                                 \<lparr>currentMenuItems :=
                                    [js ''Return to the previous page'', js ''Quit to the command prompt''],
                                  currentMenuType := EndingOptions, selectedMenuItemIndex := 0\<rparr>)
                        else
                          Inr (addNewPromptLine
                                 (Some (js ''Error: Ending '' @ endingType @ js '' not found.'')) s))
              else Inr (displayStoryAndMenu gd targetStep (s\<lparr>currentStep := Some targetStep\<rparr>)))
         | None \<Rightarrow>
             (case index (currentMenuItems s) (selectedMenuItemIndex s) of
                None \<Rightarrow> Inl TypeError
              | Some selectedItem \<Rightarrow>
                  if includes_js selectedItem (js ''Return to the previous page'')
                  then Inr (returnToPreviousPage gd s)
                  else Inr (addNewPromptLine (Some (js ''Invalid choice.'')) s)))"

definition endingOptionsEnter :: "gameData \<Rightarrow> session \<Rightarrow> session" where
  "endingOptionsEnter gd s =
     (case index (currentMenuItems s) (selectedMenuItemIndex s) of
        None \<Rightarrow> addNewPromptLine (Some (js ''Invalid choice.'')) s
      | Some selectedItem \<Rightarrow>
          if selectedItem = js ''Return to the previous Page'' then returnToPreviousPage gd s
          else if selectedItem = js ''Quit to command prompt''
          then (toCommandPrompt s)\<lparr>currentMenuType := NoMenu\<rparr>
          else addNewPromptLine (Some (js ''Invalid choice.'')) s)"

definition handleMenuNavigation ::
  "gameData \<Rightarrow> jsstring \<Rightarrow> key \<Rightarrow> session \<Rightarrow> jserror + session" where
  "handleMenuNavigation gd typed k s =
     (if currentMenuItems s \<noteq> [] then
        (case k of
           ArrowUp \<Rightarrow>
             Inr (s\<lparr>selectedMenuItemIndex :=
                      (selectedMenuItemIndex s + length (currentMenuItems s) - 1)
                        mod length (currentMenuItems s)\<rparr>)
         | ArrowDown \<Rightarrow>
             Inr (s\<lparr>selectedMenuItemIndex :=
                      (selectedMenuItemIndex s + 1) mod length (currentMenuItems s)\<rparr>)
         | Enter \<Rightarrow>
             (case currentMenuType s of
                Main \<Rightarrow> Inr (mainMenuEnter gd typed s)
              | Options \<Rightarrow> Inr (optionsEnter s)
              | FontSize \<Rightarrow> Inr (fontSizeEnter s)
              | FontColor \<Rightarrow> Inr (fontColorEnter s)
              | StoryChoices \<Rightarrow> storyChoicesEnter gd s
              | EndingOptions \<Rightarrow> Inr (endingOptionsEnter gd s)
              | NoMenu \<Rightarrow> Inr s)
         | OtherKey \<Rightarrow> Inr s)
      else Inr s)"

subsection \<open>menuHandler.js: the overlay buttons and the Load Game file\<close>

text \<open>Hiding the overlay shows the current step again.\<close>

definition hideOverlayMenu :: "gameData \<Rightarrow> session \<Rightarrow> session" where
  "hideOverlayMenu gd s =
     (case currentStep s of
        None \<Rightarrow> addNewPromptLine None s
      | Some cur \<Rightarrow> if cur \<noteq> [] then displayStoryAndMenu gd cur s else addNewPromptLine None s)"

text \<open>\<^verbatim>\<open>saveQuitButton.onclick\<close>: the state written to the \<^verbatim>\<open>.sadv\<close> file, and the session left.\<close>

definition saveQuit :: "gameData \<Rightarrow> session \<Rightarrow> savedState \<times> session" where
  "saveQuit gd s =
     (getSerializableGameState (currentStep s) s, displayMainMenu gd (hideOverlayMenu gd s))"

definition quitWithoutSaving :: "gameData \<Rightarrow> session \<Rightarrow> session" where
  "quitWithoutSaving gd s =
     (clearStoryHistory (toCommandPrompt (hideOverlayMenu gd s)))
       \<lparr>currentMenuType := NoMenu, currentStep := None\<rparr>"

text \<open>
  The file chosen after \<^verbatim>\<open>Load Game\<close>: no file, or its name and what \<^verbatim>\<open>JSON.parse\<close>
  makes of its content (\<open>None\<close> when it throws). The handler calls
  \<^verbatim>\<open>loadGameState(gameState)\<close>: the parsed object is the \<^verbatim>\<open>gameName\<close> argument and the
  slot is \<^verbatim>\<open>undefined\<close>, so the key is built from their string forms.
\<close>

definition loadGameFile ::
  "gameData \<Rightarrow> localStorage \<Rightarrow> (jsstring \<times> savedState option) option \<Rightarrow> session \<Rightarrow> session" where
  "loadGameFile gd store file s =
     (case file of
        None \<Rightarrow> addNewPromptLine None s
      | Some (fileName, parsed) \<Rightarrow>
          if last (split 46 fileName) = js ''sadv'' then
            (case parsed of
               None \<Rightarrow> addNewPromptLine (Some (js ''Error parsing save file: '')) s
             | Some gameState \<Rightarrow>
                 (let s1 = snd (loadGameState store (js ''[object Object]'') (js ''undefined'') s)
                  in case saved_currentStep gameState of
                       None \<Rightarrow>
                         addNewPromptLine
                           (Some (js ''Loaded game state, but no current step found.'')) s1
                     | Some cur \<Rightarrow>
                         if cur \<noteq> [] then
                           displayStoryAndMenu gd cur (s1\<lparr>currentStep := Some cur\<rparr>)
                         else
                           addNewPromptLine
                             (Some (js ''Loaded game state, but no current step found.'')) s1))
          else
            addNewPromptLine
              (Some (js ''Error: Incorrect file type. Please select a .sadv file.'')) s)"

text \<open>
  The view of a session that the specification calls its state: the current step, the
  history with its index, and the inventory; the steps visited before the current one are
  the history entries below the index.
\<close>

definition view :: "session \<Rightarrow> jsstring option \<times> jsstring list \<times> int \<times> inventory" where
  "view s = (currentStep s, storyHistory s, currentHistoryIndex s, inventory s)"

definition history_before :: "session \<Rightarrow> jsstring list" where
  "history_before s = take (nat (currentHistoryIndex s)) (storyHistory s)"

text \<open>
  Well-formed history: the index points into the history (or is \<open>-1\<close> when it is empty)
  and no entry is the empty text. Every operation of the menu keeps it.
\<close>

definition wf_history :: "session \<Rightarrow> bool" where
  "wf_history s \<longleftrightarrow>
     - 1 \<le> currentHistoryIndex s \<and> currentHistoryIndex s < int (length (storyHistory s)) \<and>
     [] \<notin> set (storyHistory s)"

section \<open>fileParser.js\<close>

subsection \<open>Numbers read from text\<close>

text \<open>
  The decimal literal at the start of a text, as \<^verbatim>\<open>parseFloat\<close> and \<^verbatim>\<open>Number\<close>
  read it: an optional sign, then \<^verbatim>\<open>Infinity\<close> or digits with an optional fraction and
  an optional exponent. The result is the number and the text left over.
\<close>

definition is_digit :: "int \<Rightarrow> bool" where
  "is_digit c \<longleftrightarrow> 48 \<le> c \<and> c \<le> 57"

definition scan_exponent :: "jsstring \<Rightarrow> int \<times> jsstring" where
  "scan_exponent s =
     (case s of
        [] \<Rightarrow> (0, s)
      | e # r \<Rightarrow>
          if e = 101 \<or> e = 69 then
            (let neg = (r \<noteq> [] \<and> hd r = 45);
                 r1 = (if r \<noteq> [] \<and> (hd r = 43 \<or> hd r = 45) then tl r else r);
                 ds = takeWhile is_digit r1
             in if ds = [] then (0, s)
                else ((if neg then - 1 else 1) * digits_value 10 0 ds, dropWhile is_digit r1))
          else (0, s))"

definition scan_decimal :: "jsstring \<Rightarrow> (jsnumber \<times> jsstring) option" where
  "scan_decimal s =
     (let neg = (s \<noteq> [] \<and> hd s = 45);
          s1 = (if s \<noteq> [] \<and> (hd s = 43 \<or> hd s = 45) then tl s else s)
      in if prefix (js ''Infinity'') s1
         then Some (if neg then MinusInfinity else PlusInfinity, drop 8 s1)
         else
           (let d1 = takeWhile is_digit s1;
                r1 = dropWhile is_digit s1;
                dot = (r1 \<noteq> [] \<and> hd r1 = 46);
                d2 = (if dot then takeWhile is_digit (tl r1) else []);
                r2 = (if dot then dropWhile is_digit (tl r1) else r1)
            in if d1 = [] \<and> d2 = [] then None
               else
                 (let (e, r3) = scan_exponent r2
                  in Some (Dec ((if neg then - 1 else 1) * digits_value 10 0 (d1 @ d2))
                               (e - int (length d2)), r3))))"

text \<open>\<^verbatim>\<open>parseFloat(x)\<close>; \<^verbatim>\<open>parseFloat(undefined)\<close> is \<^verbatim>\<open>NaN\<close>.\<close>

definition js_parseFloat :: "jsstring option \<Rightarrow> jsnumber" where
  "js_parseFloat x =
     (case x of
        None \<Rightarrow> NaN
      | Some s \<Rightarrow> (case scan_decimal (trimStart s) of None \<Rightarrow> NaN | Some (n, _) \<Rightarrow> n))"

text \<open>
  \<^verbatim>\<open>Number(s)\<close>: the whole trimmed text must be a numeric literal; the empty text is 0;
  \<^verbatim>\<open>0x\<close>, \<^verbatim>\<open>0o\<close> and \<^verbatim>\<open>0b\<close> introduce an unsigned integer in that radix.
\<close>

definition radix_literal :: "int \<Rightarrow> jsstring \<Rightarrow> jsnumber" where
  "radix_literal r ds =
     (if ds \<noteq> [] \<and> list_all (is_radix_digit r) ds then Dec (digits_value r 0 ds) 0 else NaN)"

definition js_Number :: "jsstring \<Rightarrow> jsnumber" where
  "js_Number s =
     (let t = trim s
      in if t = [] then Dec 0 0
         else if prefix (js ''0x'') t \<or> prefix (js ''0X'') t then radix_literal 16 (drop 2 t)
         else if prefix (js ''0o'') t \<or> prefix (js ''0O'') t then radix_literal 8 (drop 2 t)
         else if prefix (js ''0b'') t \<or> prefix (js ''0B'') t then radix_literal 2 (drop 2 t)
         else (case scan_decimal t of
                 None \<Rightarrow> NaN
               | Some (n, rest) \<Rightarrow> if rest = [] then n else NaN))"

text \<open>\<^verbatim>\<open>isNaN(Number(value)) ? value : Number(value)\<close>.\<close>

definition coerce :: "jsstring \<Rightarrow> jsvalue" where
  "coerce v = (if js_Number v = NaN then VString v else VNumber (js_Number v))"

text \<open>
  The number a literal denotes is the double nearest to its value, a tie going to the even
  neighbour. The least positive double is \<open>2^-1074\<close>, so \<open>m * 10 ^ e\<close> is read as zero
  when \<open>m\<close> is 0 or its magnitude is at most \<open>2^-1075\<close>: \<^verbatim>\<open>1e-400\<close> and
  \<^verbatim>\<open>2e-324\<close> are 0, \<^verbatim>\<open>3e-324\<close> is not.
\<close>

definition rounds_to_zero :: "int \<Rightarrow> int \<Rightarrow> bool" where
  "rounds_to_zero m e \<longleftrightarrow> m = 0 \<or> (e < 0 \<and> \<bar>m\<bar> * 2 ^ 1075 \<le> 10 ^ nat (- e))"

definition is_zero :: "jsnumber \<Rightarrow> bool" where
  "is_zero n = (case n of Dec m e \<Rightarrow> rounds_to_zero m e | _ \<Rightarrow> False)"

text \<open>Truthiness of a number: neither \<^verbatim>\<open>NaN\<close> nor zero.\<close>

definition number_truthy :: "jsnumber \<Rightarrow> bool" where
  "number_truthy n = (case n of NaN \<Rightarrow> False | _ \<Rightarrow> \<not> is_zero n)"

subsection \<open>Regular expressions\<close>

text \<open>
  The two patterns of the parser are written in a small syntax of regular expressions and
  run by a backtracking matcher. \<open>rmatch r (s, caps)\<close> lists every way in which \<open>r\<close>
  matches a prefix of \<open>s\<close>, as the text left and the groups captured, in the order in
  which backtracking tries them: a greedy quantifier offers its longest match first, a lazy one
  its shortest, an alternative its left branch first. \<^verbatim>\<open>s.match(/^r$/)\<close> is the first way
  that leaves no text.
\<close>

datatype cls = AnyChar | Space | Digit | Range int int

definition cls_match :: "cls \<Rightarrow> int \<Rightarrow> bool" where
  "cls_match k c =
     (case k of
        AnyChar \<Rightarrow> c \<noteq> 10 \<and> c \<noteq> 13 \<and> c \<noteq> 8232 \<and> c \<noteq> 8233
      | Space \<Rightarrow> is_space c
      | Digit \<Rightarrow> is_digit c
      | Range a b \<Rightarrow> a \<le> c \<and> c \<le> b)"

datatype regex =
    Lit jsstring
  | One cls
  | StarGreedy cls
  | PlusGreedy cls
  | PlusLazy cls
  | Alt regex regex
  | Seq regex regex
  | Group nat regex
  | Opt regex

text \<open>The texts left after one, two, ... characters of the class, shortest match first.\<close>

fun lazy_plus :: "cls \<Rightarrow> jsstring \<Rightarrow> jsstring list" where
  "lazy_plus k [] = []"
| "lazy_plus k (c # s) = (if cls_match k c then s # lazy_plus k s else [])"

type_synonym captures = "(nat \<times> jsstring) list"

fun rmatch :: "regex \<Rightarrow> jsstring \<times> captures \<Rightarrow> (jsstring \<times> captures) list" where
  "rmatch (Lit l) (s, caps) = (if prefix l s then [(drop (length l) s, caps)] else [])"
| "rmatch (One k) (s, caps) =
     (case s of [] \<Rightarrow> [] | c # r \<Rightarrow> if cls_match k c then [(r, caps)] else [])"
| "rmatch (StarGreedy k) (s, caps) = map (\<lambda>r. (r, caps)) (rev (lazy_plus k s) @ [s])"
| "rmatch (PlusGreedy k) (s, caps) = map (\<lambda>r. (r, caps)) (rev (lazy_plus k s))"
| "rmatch (PlusLazy k) (s, caps) = map (\<lambda>r. (r, caps)) (lazy_plus k s)"
| "rmatch (Alt a b) st = rmatch a st @ rmatch b st"
| "rmatch (Seq a b) st = concat (map (rmatch b) (rmatch a st))"
| "rmatch (Group i r) (s, caps) =
     map (\<lambda>(rest, caps'). (rest, (i, take (length s - length rest) s) # caps')) (rmatch r (s, caps))"
| "rmatch (Opt r) st = rmatch r st @ [st]"

definition match_whole :: "regex \<Rightarrow> jsstring \<Rightarrow> captures option" where
  "match_whole r s =
     (case filter (\<lambda>(rest, caps). rest = []) (rmatch r (s, [])) of
        [] \<Rightarrow> None
      | (rest, caps) # _ \<Rightarrow> Some caps)"

text \<open>
  \<^verbatim>\<open>/^([A-D])\)\s*(.+?)\s*(?:->|\<rightarrow>)\s*(STEP_\d+|ENDING_SUCCESS|ENDING_FAILURE|ENDING_NEUTRAL)(?:\s*\{\s*(.+?)\s*\})?$/\<close>,
  the arrow being U+2192.
\<close>

definition choiceTarget :: regex where
  "choiceTarget =
     Alt (Seq (Lit (js ''STEP_'')) (PlusGreedy Digit))
       (Alt (Lit (js ''ENDING_SUCCESS''))
          (Alt (Lit (js ''ENDING_FAILURE'')) (Lit (js ''ENDING_NEUTRAL''))))"

definition choiceExtras :: regex where
  "choiceExtras =
     Seq (StarGreedy Space)
       (Seq (Lit (js ''{''))
          (Seq (StarGreedy Space)
             (Seq (Group 4 (PlusLazy AnyChar))
                (Seq (StarGreedy Space) (Lit (js ''}''))))))"

definition choiceRegex :: regex where
  "choiceRegex =
     Seq (Group 1 (One (Range 65 68)))
       (Seq (Lit (js '')''))
          (Seq (StarGreedy Space)
             (Seq (Group 2 (PlusLazy AnyChar))
                (Seq (StarGreedy Space)
                   (Seq (Alt (Lit (js ''->'')) (Lit [8594]))
                      (Seq (StarGreedy Space)
                         (Seq (Group 3 choiceTarget) (Opt choiceExtras))))))))"

text \<open>\<^verbatim>\<open>/^IF\s+(.+)\s+THEN\s+(.+)$/\<close>\<close>

definition conditionRegex :: regex where
  "conditionRegex =
     Seq (Lit (js ''IF''))
       (Seq (PlusGreedy Space)
          (Seq (Group 1 (PlusGreedy AnyChar))
             (Seq (PlusGreedy Space)
                (Seq (Lit (js ''THEN''))
                   (Seq (PlusGreedy Space) (Group 2 (PlusGreedy AnyChar)))))))"

text \<open>A captured group: \<^verbatim>\<open>undefined\<close> when the group took no part in the match.\<close>

definition group :: "captures \<Rightarrow> nat \<Rightarrow> jsstring option" where
  "group caps i = map_of caps i"

definition group_text :: "captures \<Rightarrow> nat \<Rightarrow> jsstring" where
  "group_text caps i = (case map_of caps i of None \<Rightarrow> [] | Some t \<Rightarrow> t)"

subsection \<open>The block parsers\<close>

text \<open>A loop body that may throw, run over the elements of an array.\<close>

fun forEach :: "('a \<Rightarrow> 'st \<Rightarrow> jserror + 'st) \<Rightarrow> 'a list \<Rightarrow> 'st \<Rightarrow> jserror + 'st" where
  "forEach f [] st = Inr st"
| "forEach f (x # xs) st = (case f x st of Inl e \<Rightarrow> Inl e | Inr st' \<Rightarrow> forEach f xs st')"

definition quoted :: "jsstring \<Rightarrow> jsstring \<Rightarrow> jsstring" where
  "quoted msg t = msg @ js '': '' @ [34] @ t @ [34]"

text \<open>The extras of a choice: \<^verbatim>\<open>IF\<close> gives a condition, \<^verbatim>\<open>SET\<close> or \<^verbatim>\<open>USE\<close> a consequence.\<close>

definition addExtra :: "jsstring \<Rightarrow> choice \<Rightarrow> choice" where
  "addExtra extra c =
     (if prefix (js ''IF'') extra then c\<lparr>conditions := conditions c @ [trim (drop 2 extra)]\<rparr>
      else if prefix (js ''SET'') extra \<or> prefix (js ''USE'') extra
      then c\<lparr>consequences := consequences c @ [extra]\<rparr>
      else c)"

definition choiceOfMatch :: "captures \<Rightarrow> choice" where
  "choiceOfMatch m =
     (let c = \<lparr>label = group_text m 1, description = trim (group_text m 2),
               target = group_text m 3, conditions = [], consequences = []\<rparr>
      in if truthy (group m 4)
         then fold addExtra (map trim (split 59 (group_text m 4))) c
         else c)"

definition parseChoiceLine :: "jsstring \<Rightarrow> choice list \<Rightarrow> jserror + choice list" where
  "parseChoiceLine line acc =
     (let trimmedLine = trim line
      in case match_whole choiceRegex trimmedLine of
           Some m \<Rightarrow> Inr (acc @ [choiceOfMatch m])
         | None \<Rightarrow>
             if trimmedLine \<noteq> [] then Inl (Error (quoted (js ''Malformed choice line'') trimmedLine))
             else Inr acc)"

definition parseChoices :: "jsstring list \<Rightarrow> jserror + choice list" where
  "parseChoices contentLines = forEach parseChoiceLine contentLines []"

text \<open>
  \<^verbatim>\<open>parseKeyValue\<close> stands on one physical line of \<^verbatim>\<open>fileParser.js\<close> (line 174),
  its line breaks lost, so that the comment \<^verbatim>\<open>// Skip empty lines\<close> runs to the end of
  the function and the file as it stands is not a well-formed module. The function is read
  here with its line breaks back where the indentation has them, as the other block parsers
  are laid out; every other function of the file is read as it stands.
\<close>

definition parseKeyValueLine :: "jsstring \<Rightarrow> keyValues \<Rightarrow> jserror + keyValues" where
  "parseKeyValueLine line obj =
     (let trimmedLine = trim line
      in if trimmedLine = [] then Inr obj
         else if includes_js trimmedLine [COLON] then
           (let parts = split COLON trimmedLine
            in if length parts \<noteq> 2 \<or> trim (parts ! 0) = [] \<or> trim (parts ! 1) = []
               then Inl (Error (quoted (js ''Malformed key-value line'') trimmedLine))
               else Inr (AList.update (trim (parts ! 0)) (coerce (trim (parts ! 1))) obj))
         else Inl (Error (quoted (js ''Malformed key-value line'') trimmedLine)))"

definition parseKeyValue :: "jsstring \<Rightarrow> jserror + keyValues" where
  "parseKeyValue content = forEach parseKeyValueLine (split NEWLINE content) []"

definition parseConditionLine :: "jsstring \<Rightarrow> conditionRule list \<Rightarrow> jserror + conditionRule list" where
  "parseConditionLine line acc =
     (let trimmedLine = trim line
      in if trimmedLine = [] then Inr acc
         else case match_whole conditionRegex trimmedLine of
                Some m \<Rightarrow>
                  Inr (acc @ [\<lparr>condition = trim (group_text m 1), action = trim (group_text m 2)\<rparr>])
              | None \<Rightarrow> Inl (Error (quoted (js ''Malformed condition line'') trimmedLine)))"

definition parseConditions :: "jsstring \<Rightarrow> jserror + conditionRule list" where
  "parseConditions content = forEach parseConditionLine (split NEWLINE content) []"

definition parseCheckpoints :: "jsstring \<Rightarrow> jsstring list" where
  "parseCheckpoints content =
     map (replace_first (js ''STEP_'') [])
       (filter (prefix (js ''STEP_'')) (map trim (split NEWLINE content)))"

text \<open>
  One line of a \<^verbatim>\<open>RANDOM_EVENT\<close> block. The event object starts empty; each part
  \<^verbatim>\<open>key: value\<close> with the key \<^verbatim>\<open>chance\<close> or \<^verbatim>\<open>outcome\<close> sets a property, a later
  part overwriting an earlier one.
\<close>

record eventDraft =
  draft_chance :: "jsnumber option"
  draft_outcome :: "jsstring option"

definition eventPart :: "jsstring \<Rightarrow> eventDraft \<Rightarrow> eventDraft" where
  "eventPart part ev =
     (let (k, v) = destructure2 (map trim (split COLON part))
      in if k = Some (js ''chance'') then ev\<lparr>draft_chance := Some (js_parseFloat v)\<rparr>
         else if k = Some (js ''outcome'') then ev\<lparr>draft_outcome := v\<rparr>
         else ev)"

definition eventOfLine :: "jsstring \<Rightarrow> eventDraft" where
  "eventOfLine trimmedLine =
     fold eventPart (map trim (split 44 trimmedLine)) \<lparr>draft_chance = None, draft_outcome = None\<rparr>"

definition parseRandomEventLine :: "jsstring \<Rightarrow> randomEvent list \<Rightarrow> jserror + randomEvent list" where
  "parseRandomEventLine line events =
     (let trimmedLine = trim line
      in if trimmedLine = [] then Inr events
         else
           (let ev = eventOfLine trimmedLine
            in case (draft_chance ev, draft_outcome ev) of
                 (Some ch, Some out) \<Rightarrow>
                   if number_truthy ch \<and> out \<noteq> []
                   then Inr (events @ [\<lparr>chance = ch, outcome = out\<rparr>])
                   else Inl (Error (quoted (js ''Malformed random event line'') trimmedLine))
               | _ \<Rightarrow> Inl (Error (quoted (js ''Malformed random event line'') trimmedLine))))"

definition parseRandomEvent :: "jsstring \<Rightarrow> jserror + randomEvent list" where
  "parseRandomEvent content = forEach parseRandomEventLine (split NEWLINE content) []"

definition consequenceAction :: "jsstring \<Rightarrow> keyValues \<Rightarrow> jserror + keyValues" where
  "consequenceAction act obj =
     (let parts = split COLON act
      in if length parts = 2
         then Inr (AList.update (trim (parts ! 0)) (coerce (trim (parts ! 1))) obj)
         else Inl (Error (quoted (js ''Malformed consequence action'') act)))"

definition parseConsequenceLine :: "jsstring \<Rightarrow> keyValues list \<Rightarrow> jserror + keyValues list" where
  "parseConsequenceLine line acc =
     (let trimmedLine = trim line
      in if trimmedLine = [] then Inr acc
         else case forEach consequenceAction (map trim (split 44 trimmedLine)) [] of
                Inl e \<Rightarrow> Inl e
              | Inr obj \<Rightarrow>
                  if obj \<noteq> [] then Inr (acc @ [obj])
                  else Inl (Error (quoted (js ''Malformed consequence line'') trimmedLine)))"

definition parseConsequence :: "jsstring \<Rightarrow> jserror + keyValues list" where
  "parseConsequence content = forEach parseConsequenceLine (split NEWLINE content) []"

text \<open>
  A line of a \<^verbatim>\<open>CHOICES\<close> block is in order when it is blank or matches the grammar;
  \<open>choicesOfLine\<close> is what such a line adds to the choices of its step.
\<close>

definition choice_line_ok :: "jsstring \<Rightarrow> bool" where
  "choice_line_ok line \<longleftrightarrow> trim line = [] \<or> match_whole choiceRegex (trim line) \<noteq> None"

definition choicesOfLine :: "jsstring \<Rightarrow> choice list" where
  "choicesOfLine line =
     (case match_whole choiceRegex (trim line) of None \<Rightarrow> [] | Some m \<Rightarrow> [choiceOfMatch m])"

subsection \<open>parseFile\<close>

text \<open>
  The variables of the scan: the document under construction, the open section and
  subsection (\<^verbatim>\<open>null\<close> is \<open>None\<close>) and the lines collected since the last tag.
\<close>

record scan =
  gameData :: gameData
  currentSection :: "jsstring option"
  currentSubSection :: "jsstring option"
  currentContentBuffer :: "jsstring list"

definition emptyGameData :: gameData where
  "emptyGameData =
     \<lparr>gameName = [], mainMenuItems = [], gd_inventory = [], stats = [], variables = [],
      steps = [], endings = \<lparr>success = [], failure = [], neutral = []\<rparr>,
      gd_conditions = [], checkpoints = [], randomEvents = [], gd_consequences = [],
      askForName = False\<rparr>"

definition ensureStep :: "jsstring \<Rightarrow> gameData \<Rightarrow> gameData" where
  "ensureStep stepKey g =
     (case map_of (steps g) stepKey of
        None \<Rightarrow> g\<lparr>steps := AList.update stepKey \<lparr>narrative = [], choices = []\<rparr> (steps g)\<rparr>
      | Some _ \<Rightarrow> g)"

definition updateStep :: "jsstring \<Rightarrow> (step \<Rightarrow> step) \<Rightarrow> gameData \<Rightarrow> gameData" where
  "updateStep stepKey f g =
     (case map_of (steps g) stepKey of
        None \<Rightarrow> g
      | Some st \<Rightarrow> g\<lparr>steps := AList.update stepKey (f st) (steps g)\<rparr>)"

text \<open>The \<^verbatim>\<open>switch\<close> of \<^verbatim>\<open>processBuffer\<close> over the top-level sections.\<close>

definition processSection :: "jsstring \<Rightarrow> jsstring \<Rightarrow> gameData \<Rightarrow> jserror + gameData" where
  "processSection section sectionContent g =
     (if section = js ''GAME_NAME'' then Inr (g\<lparr>gameName := sectionContent\<rparr>)
      else if section = js ''MAIN_MENU'' then
        Inr (g\<lparr>mainMenuItems :=
                 filter (\<lambda>item. item \<noteq> []) (map trim (split NEWLINE sectionContent))\<rparr>)
      else if section = js ''INVENTORY'' then
        (case parseKeyValue sectionContent of Inl e \<Rightarrow> Inl e
         | Inr kv \<Rightarrow> Inr (g\<lparr>gd_inventory := kv\<rparr>))
      else if section = js ''STATS'' then
        (case parseKeyValue sectionContent of Inl e \<Rightarrow> Inl e | Inr kv \<Rightarrow> Inr (g\<lparr>stats := kv\<rparr>))
      else if section = js ''VARIABLES'' then
        (case parseKeyValue sectionContent of Inl e \<Rightarrow> Inl e
         | Inr kv \<Rightarrow> Inr (g\<lparr>variables := kv\<rparr>))
      else if section = js ''ENDING_SUCCESS'' then
        Inr (g\<lparr>endings := (endings g)\<lparr>success := sectionContent\<rparr>\<rparr>)
      else if section = js ''ENDING_FAILURE'' then
        Inr (g\<lparr>endings := (endings g)\<lparr>failure := sectionContent\<rparr>\<rparr>)
      else if section = js ''ENDING_NEUTRAL'' then
        Inr (g\<lparr>endings := (endings g)\<lparr>neutral := sectionContent\<rparr>\<rparr>)
      else if section = js ''CONDITIONS'' then
        (case parseConditions sectionContent of Inl e \<Rightarrow> Inl e
         | Inr cs \<Rightarrow> Inr (g\<lparr>gd_conditions := cs\<rparr>))
      else if section = js ''CHECKPOINT'' then
        Inr (g\<lparr>checkpoints := parseCheckpoints sectionContent\<rparr>)
      else if section = js ''RANDOM_EVENT'' then
        (case parseRandomEvent sectionContent of Inl e \<Rightarrow> Inl e
         | Inr es \<Rightarrow> Inr (g\<lparr>randomEvents := es\<rparr>))
      else if section = js ''CONSEQUENCE'' then
        (case parseConsequence sectionContent of Inl e \<Rightarrow> Inl e
         | Inr cs \<Rightarrow> Inr (g\<lparr>gd_consequences := cs\<rparr>))
      else if section = js ''NAME'' then
        Inr (g\<lparr>askForName := (toLowerCase sectionContent = js ''true'')\<rparr>)
      else Inr g)"

text \<open>
  \<^verbatim>\<open>processBuffer\<close>. With a subsection open the buffer belongs to the step named by the
  open section; \<^verbatim>\<open>currentSection.replace\<close> on \<^verbatim>\<open>null\<close> is a TypeError.
\<close>

definition processBuffer :: "scan \<Rightarrow> jserror + scan" where
  "processBuffer p =
     (let buf = currentContentBuffer p in
      case currentSubSection p of
        Some sub \<Rightarrow>
          (case currentSection p of
             None \<Rightarrow> Inl TypeError
           | Some sec \<Rightarrow>
               (let stepKey = replace_first (js ''STEP_'') [] sec;
                    g = ensureStep stepKey (gameData p)
                in if sub = js ''NARRATIVE'' then
                     Inr (p\<lparr>gameData :=
                              updateStep stepKey (\<lambda>st. st\<lparr>narrative := trim (join NEWLINE buf)\<rparr>) g,
                            currentContentBuffer := []\<rparr>)
                   else if sub = js ''CHOICES'' then
                     (case parseChoices buf of
                        Inl e \<Rightarrow> Inl e
                      | Inr cs \<Rightarrow>
                          Inr (p\<lparr>gameData := updateStep stepKey (\<lambda>st. st\<lparr>choices := cs\<rparr>) g,
                                 currentContentBuffer := []\<rparr>))
                   else Inr (p\<lparr>gameData := g, currentContentBuffer := []\<rparr>)))
      | None \<Rightarrow>
          (if truthy (currentSection p) then
             (case processSection (the (currentSection p)) (trim (join NEWLINE buf)) (gameData p) of
                Inl e \<Rightarrow> Inl e
              | Inr g \<Rightarrow> Inr (p\<lparr>gameData := g, currentContentBuffer := []\<rparr>))
           else Inr (p\<lparr>currentContentBuffer := []\<rparr>)))"

text \<open>\<^verbatim>\<open>`/${x}`\<close> for a string or \<^verbatim>\<open>null\<close>.\<close>

definition closingTag :: "jsstring option \<Rightarrow> jsstring" where
  "closingTag x = 47 # (case x of None \<Rightarrow> js ''null'' | Some t \<Rightarrow> t)"

definition parseLine :: "jsstring \<Rightarrow> scan \<Rightarrow> jserror + scan" where
  "parseLine line p =
     (let trimmedLine = trim line in
      if prefix (js ''['') trimmedLine \<and> suffix (js '']'') trimmedLine then
        (case processBuffer p of
           Inl e \<Rightarrow> Inl e
         | Inr p1 \<Rightarrow>
             (let tag = take (length trimmedLine - 2) (drop 1 trimmedLine) in
              if prefix (js ''STEP_'') tag then
                Inr (p1\<lparr>currentSection := Some tag, currentSubSection := None,
                       gameData := ensureStep (replace_first (js ''STEP_'') [] tag) (gameData p1)\<rparr>)
              else if tag = js ''NARRATIVE'' \<or> tag = js ''CHOICES'' then
                (if \<not> truthy (currentSection p1) \<or>
                    \<not> prefix (js ''STEP_'') (the (currentSection p1))
                 then Inl (Error (js ''Invalid .adv file format: ['' @ tag @
                                  js ''] found outside of a [STEP_X] block.''))
                 else Inr (p1\<lparr>currentSubSection := Some tag\<rparr>))
              else if prefix (js ''/'') tag then
                (if tag = closingTag (currentSubSection p1) then Inr (p1\<lparr>currentSubSection := None\<rparr>)
                 else if tag = closingTag (currentSection p1) then Inr (p1\<lparr>currentSection := None\<rparr>)
                 else Inr p1)
              else Inr (p1\<lparr>currentSection := Some tag, currentSubSection := None\<rparr>)))
      else Inr (p\<lparr>currentContentBuffer := currentContentBuffer p @ [line]\<rparr>))"

text \<open>The final validation: the only checks made on the document as a whole.\<close>

definition finalValidation :: "gameData \<Rightarrow> jserror + gameData" where
  "finalValidation g =
     (if gameName g = [] then
        Inl (Error (js ''Invalid .adv file format: Missing [GAME_NAME] section.''))
      else if mainMenuItems g = [] then
        Inl (Error (js ''Invalid .adv file format: Missing or empty [MAIN_MENU] section.''))
      else if steps g = [] then
        Inl (Error (js ''Invalid .adv file format: No [STEP_X] sections found.''))
      else Inr g)"

definition parseFile :: "jsstring \<Rightarrow> jserror + gameData" where
  "parseFile content =
     (case forEach parseLine (split NEWLINE content)
             \<lparr>gameData = emptyGameData, currentSection = None, currentSubSection = None,
              currentContentBuffer = []\<rparr> of
        Inl e \<Rightarrow> Inl e
      | Inr p \<Rightarrow>
          (case processBuffer p of
             Inl e \<Rightarrow> Inl e
           | Inr p' \<Rightarrow> finalValidation (gameData p')))"

text \<open>The lines of a document, joined as the file has them.\<close>

definition document :: "string list \<Rightarrow> jsstring" where
  "document ls = join NEWLINE (map js ls)"

subsection \<open>commandHandler.js: loading a document\<close>

text \<open>
  \<^verbatim>\<open>initializeInventory\<close> copies the \<^verbatim>\<open>INVENTORY\<close> section into a new
  \<^verbatim>\<open>InventoryManager\<close>. The quantities of the model are integers: an entry whose value
  is not an integer (a text, a fraction) is outside the model and is left out.
\<close>

definition quantityOf :: "jsvalue \<Rightarrow> int option" where
  "quantityOf v =
     (case v of
        VNumber (Dec m e) \<Rightarrow>
          if e \<ge> 0 then Some (m * 10 ^ nat e)
          else if m mod 10 ^ nat (- e) = 0 then Some (m div 10 ^ nat (- e))
          else None
      | _ \<Rightarrow> None)"

definition initializeInventory :: "gameData \<Rightarrow> inventory" where
  "initializeInventory g =
     List.map_filter (\<lambda>(k, v). map_option (Pair k) (quantityOf v)) (gd_inventory g)"

text \<open>
  The module state when the page has loaded: no menu entries, no history, no current step,
  an empty inventory.
\<close>

definition initialSession :: session where
  "initialSession =
     \<lparr>selectedMenuItemIndex = 0, currentMenuItems = [], currentMenuType = Main,
      isGoingBack = False, currentStep = None, storyHistory = [], currentHistoryIndex = - 1,
      gameStats = (0, 0), userName = [], inventory = [], terminal = []\<rparr>"

text \<open>
  The handler of the \<^verbatim>\<open>load\<close> command for the file chosen: no file, or its name and
  content. A document that parses is installed (inventory, intro, main menu) and becomes the
  document of the menu; a parse error is shown and nothing else changes.
\<close>

definition showLoaded :: "jsstring \<Rightarrow> gameData \<Rightarrow> session \<Rightarrow> gameData \<times> session" where
  "showLoaded fileName g s =
     (let s1 = (emit [Appended (9989 # js '' Successfully loaded: '' @ fileName)] s)
                 \<lparr>inventory := initializeInventory g\<rparr>;
          s2 = emit [Cleared, Appended (gameName g)] s1;
          g' = (if userName s2 \<noteq> []
                then g\<lparr>mainMenuItems := map (replace_USER (userName s2)) (mainMenuItems g)\<rparr>
                else g)
      in (g', displayMainMenu g' s2))"

definition loadAdventureFile ::
  "(jsstring \<times> jsstring) option \<Rightarrow> session \<Rightarrow> gameData option \<times> session" where
  "loadAdventureFile file s =
     (case file of
        None \<Rightarrow> (None, addNewPromptLine None s)
      | Some (fileName, content) \<Rightarrow>
          if last (split 46 fileName) = js ''adv'' then
            (case parseFile content of
               Inl e \<Rightarrow> (None, addNewPromptLine None (emit [ParseFailed e] s))
             | Inr g \<Rightarrow> (case showLoaded fileName g s of (g', s') \<Rightarrow> (Some g', s')))
          else
            (None,
             addNewPromptLine None
               (emit [Appended (10060 # js '' Error: Incorrect file type. Please select a .adv file.'' @
                                [NEWLINE])] s)))"

section \<open>A small adventure\<close>

text \<open>
  The document used where a theorem is run on a concrete input. The inventory starts with one
  key. Step 1 has a choice guarded by \<^verbatim>\<open>IF lockpick\<close>, which the inventory does not
  satisfy, and a choice guarded by \<^verbatim>\<open>IF key\<close> that carries \<^verbatim>\<open>USE key\<close>.
\<close>

definition adventure_text :: jsstring where
  "adventure_text = document
     [''[GAME_NAME]'', ''Test'', ''[/GAME_NAME]'',
      ''[MAIN_MENU]'', ''Start New Game'', ''Load Game'', ''[/MAIN_MENU]'',
      ''[INVENTORY]'', ''key: 1'', ''[/INVENTORY]'',
      ''[STEP_1]'',
      ''[NARRATIVE]'', ''You wake.'', ''[/NARRATIVE]'',
      ''[CHOICES]'',
      ''A) Pick the lock -> STEP_2 {IF lockpick}'',
      ''B) Use key -> STEP_2 {IF key; USE key}'',
      ''C) Go back to sleep -> ENDING_FAILURE'',
      ''[/CHOICES]'',
      ''[/STEP_1]'',
      ''[STEP_2]'',
      ''[NARRATIVE]'', ''You see light.'', ''[/NARRATIVE]'',
      ''[CHOICES]'', ''A) Walk -> ENDING_SUCCESS'', ''[/CHOICES]'',
      ''[/STEP_2]'',
      ''[ENDING_SUCCESS]'', ''You won.'', ''[/ENDING_SUCCESS]'',
      ''[ENDING_FAILURE]'', ''You lost.'', ''[/ENDING_FAILURE]'']"

definition step_one :: step where
  "step_one =
     \<lparr>narrative = js ''You wake.'',
      choices =
        [\<lparr>label = js ''A'', description = js ''Pick the lock'', target = js ''STEP_2'',
          conditions = [js ''lockpick''], consequences = []\<rparr>,
         \<lparr>label = js ''B'', description = js ''Use key'', target = js ''STEP_2'',
          conditions = [js ''key''], consequences = [js ''USE key'']\<rparr>,
         \<lparr>label = js ''C'', description = js ''Go back to sleep'',
          target = js ''ENDING_FAILURE'', conditions = [], consequences = []\<rparr>]\<rparr>"

definition step_two :: step where
  "step_two =
     \<lparr>narrative = js ''You see light.'',
      choices =
        [\<lparr>label = js ''A'', description = js ''Walk'', target = js ''ENDING_SUCCESS'',
          conditions = [], consequences = []\<rparr>]\<rparr>"

definition adventure :: gameData where
  "adventure =
     \<lparr>gameName = js ''Test'',
      mainMenuItems = [js ''Start New Game'', js ''Load Game''],
      gd_inventory = [(js ''key'', VNumber (Dec 1 0))], stats = [], variables = [],
      steps = [(js ''1'', step_one), (js ''2'', step_two)],
      endings = \<lparr>success = js ''You won.'', failure = js ''You lost.'', neutral = []\<rparr>,
      gd_conditions = [], checkpoints = [], randomEvents = [], gd_consequences = [],
      askForName = False\<rparr>"

text \<open>A document whose only choice leads to a step that it does not have.\<close>

definition dangling_text :: jsstring where
  "dangling_text = document
     [''[GAME_NAME]'', ''Test'', ''[/GAME_NAME]'',
      ''[MAIN_MENU]'', ''Start New Game'', ''[/MAIN_MENU]'',
      ''[STEP_1]'',
      ''[NARRATIVE]'', ''You wake.'', ''[/NARRATIVE]'',
      ''[CHOICES]'', ''A) Open the door -> STEP_9'', ''[/CHOICES]'',
      ''[/STEP_1]'']"

definition dangling :: gameData where
  "dangling =
     emptyGameData
       \<lparr>gameName := js ''Test'', mainMenuItems := [js ''Start New Game''],
        steps :=
          [(js ''1'',
            \<lparr>narrative = js ''You wake.'',
             choices =
               [\<lparr>label = js ''A'', description = js ''Open the door'', target = js ''STEP_9'',
                 conditions = [], consequences = []\<rparr>]\<rparr>)]\<rparr>"

text \<open>A document whose first step has two choices labelled \<^verbatim>\<open>A\<close>.\<close>

definition duplicate_text :: jsstring where
  "duplicate_text = document
     [''[GAME_NAME]'', ''Test'', ''[/GAME_NAME]'',
      ''[MAIN_MENU]'', ''Start New Game'', ''[/MAIN_MENU]'',
      ''[STEP_1]'',
      ''[NARRATIVE]'', ''You wake.'', ''[/NARRATIVE]'',
      ''[CHOICES]'', ''A) Open the door -> STEP_2'', ''A) Go back to sleep -> STEP_3'', ''[/CHOICES]'',
      ''[/STEP_1]'',
      ''[STEP_2]'', ''[NARRATIVE]'', ''Light.'', ''[/NARRATIVE]'', ''[/STEP_2]'',
      ''[STEP_3]'', ''[NARRATIVE]'', ''Dark.'', ''[/NARRATIVE]'', ''[/STEP_3]'']"


text \<open>
  Sessions of a document, from the page just loaded: \<open>opened\<close> after the document is
  loaded from the file \<^verbatim>\<open>game.adv\<close> and its main menu is shown, \<open>started\<close> after
  \<^verbatim>\<open>Start New Game\<close> is entered, \<open>moved\<close> after the first choice of step 1 is entered as
  well, \<open>moved_second\<close> after the second choice is entered instead, \<open>ended\<close> after
  the first choice of step 2, which leads to an ending, is entered from \<open>moved\<close>.
  \<open>press\<close> is a key pressed in a session; a key that throws leaves the session as it is.
\<close>

definition press :: "gameData \<Rightarrow> key \<Rightarrow> session \<Rightarrow> session" where
  "press g k s = (case handleMenuNavigation g [] k s of Inl e \<Rightarrow> s | Inr s' \<Rightarrow> s')"

definition opened :: "gameData \<Rightarrow> session" where
  "opened g = snd (showLoaded (js ''game.adv'') g initialSession)"

definition started :: "gameData \<Rightarrow> session" where
  "started g = press g Enter (opened g)"

definition moved :: "gameData \<Rightarrow> session" where
  "moved g = press g Enter (started g)"

definition moved_second :: "gameData \<Rightarrow> session" where
  "moved_second g = press g Enter (press g ArrowDown (started g))"

definition ended :: "gameData \<Rightarrow> session" where
  "ended g = press g Enter (moved g)"

text \<open>
  Saving and resuming as the player does it: \<^verbatim>\<open>Save & Quit\<close> in the overlay, which
  writes the file and shows the main menu, then \<^verbatim>\<open>Load Game\<close>, the second entry of the
  main menu, with the file written, in a browser whose \<^verbatim>\<open>localStorage\<close> holds nothing.
\<close>

definition saved_and_resumed :: "gameData \<Rightarrow> session \<Rightarrow> session" where
  "saved_and_resumed g s =
     (let (saved, m) = saveQuit g s;
          m' = press g Enter (press g ArrowDown m)
      in loadGameFile g Map.empty (Some (js ''Test.sadv'', Some saved)) m')"

section \<open>Facts about the string built-ins\<close>

lemma not_space_colon: "\<not> is_space 58" by (simp add: is_space_def)

lemma split_nonempty: "split sep s \<noteq> []"
  by (induction s) (auto split: list.splits)

lemma split_no_sep: "sep \<notin> set s \<Longrightarrow> split sep s = [s]"
  by (induction s) auto

lemma split_append_sep: "sep \<notin> set a \<Longrightarrow> split sep (a @ sep # b) = a # split sep b"
  by (induction a) auto

lemma includes_js_single: "includes_js s [c] \<longleftrightarrow> c \<in> set s"
  by (induction s) auto

lemma includes_js_prefix: "prefix pat s \<Longrightarrow> includes_js s pat"
  by (cases s) auto

lemma includes_js_append: "includes_js (a @ pat @ b) pat"
  by (induction a) (auto simp: includes_js_prefix)

lemma dropWhile_append_stop:
  "\<not> P y \<Longrightarrow> dropWhile P (xs @ y # ys) = dropWhile P xs @ y # ys"
  by (induction xs) auto

lemma trimStart_stop: "\<not> is_space y \<Longrightarrow> trimStart (a @ y # b) = trimStart a @ y # b"
  by (simp add: trimStart_def dropWhile_append_stop)

lemma trimEnd_stop: "\<not> is_space y \<Longrightarrow> trimEnd (a @ y # b) = a @ y # trimEnd b"
  by (simp add: trimEnd_def dropWhile_append_stop)

lemma trimStart_idem: "trimStart (trimStart s) = trimStart s"
  by (simp add: trimStart_def)

lemma trimEnd_idem: "trimEnd (trimEnd s) = trimEnd s"
  by (simp add: trimEnd_def)

lemma trimStart_Cons: "\<not> is_space y \<Longrightarrow> trimStart (y # b) = y # b"
  by (simp add: trimStart_def)

lemma trim_commute: "trimStart (trimEnd s) = trimEnd (trimStart s)"
proof (cases "\<forall>x\<in>set s. is_space x")
  case True
  then have a: "dropWhile is_space s = []" "dropWhile is_space (rev s) = []"
    by simp_all
  show ?thesis unfolding trimStart_def trimEnd_def a by simp
next
  case False
  then have "dropWhile is_space s \<noteq> []" by auto
  then obtain y ys where d: "dropWhile is_space s = y # ys" by (cases "dropWhile is_space s") auto
  then have ny: "\<not> is_space y" by (metis hd_dropWhile list.sel(1) list.distinct(1))
  have s: "s = takeWhile is_space s @ y # ys" using d by (metis takeWhile_dropWhile_id)
  have "trimEnd s = takeWhile is_space s @ y # trimEnd ys"
    using trimEnd_stop[OF ny, of "takeWhile is_space s" ys] s by simp
  moreover have "dropWhile is_space (takeWhile is_space s @ y # trimEnd ys) =
      dropWhile is_space (y # trimEnd ys)"
    by (rule dropWhile_append2) (auto dest: set_takeWhileD)
  ultimately have "trimStart (trimEnd s) = y # trimEnd ys"
    using ny by (simp add: trimStart_def)
  moreover have "trimEnd (trimStart s) = y # trimEnd ys"
    using trimEnd_stop[OF ny, of "[]" ys] d by (simp add: trimStart_def)
  ultimately show ?thesis by simp
qed

lemma trim_trimStart: "trim (trimStart s) = trim s"
  by (simp add: trim_def trimStart_idem)

lemma trim_trimEnd: "trim (trimEnd s) = trim s"
  by (simp add: trim_def trim_commute trimEnd_idem)

lemma trim_item_qty: "trim (a @ 58 # q) = trimStart a @ 58 # trimEnd q"
  by (simp add: trim_def trimStart_stop trimEnd_stop not_space_colon)

lemma set_trimStart: "set (trimStart s) \<subseteq> set s"
  by (simp add: trimStart_def set_dropWhileD subsetI)

lemma set_trimEnd: "set (trimEnd s) \<subseteq> set s"
  using set_dropWhileD[of _ is_space "rev s"] by (auto simp: trimEnd_def)

lemma trim_wrap:
  "\<not> is_space x \<Longrightarrow> \<not> is_space y \<Longrightarrow> trim (x # a @ y # b) = x # a @ y # trimEnd b"
  using trimEnd_stop[of y "x # a" b] by (simp add: trim_def trimStart_Cons)

lemma parts_item_qty:
  assumes "58 \<notin> set a" "58 \<notin> set q"
  shows "destructure2 (map trim (split 58 (trimStart a @ 58 # trimEnd q))) = (Some (trim a), Some (trim q))"
proof -
  have 1: "58 \<notin> set (trimStart a)" "58 \<notin> set (trimEnd q)"
    using assms set_trimStart set_trimEnd by blast+
  show ?thesis
    by (simp add: split_append_sep[OF 1(1)] split_no_sep[OF 1(2)]
        destructure2_def trim_trimStart trim_trimEnd)
qed

lemma parseInt_or_1_default:
  "js_parseInt s = None \<or> js_parseInt s = Some 0 \<Longrightarrow> parseInt_or_1 (Some s) = 1"
  by (auto simp: parseInt_or_1_def parseInt_arg_def)

lemma use_item_qty:
  assumes "58 \<notin> set item" "58 \<notin> set q"
  shows "applyInventoryConsequence invt (Str (js ''USE '' @ item @ 58 # q)) =
         removeItem invt (trim item) (parseInt_or_1 (Some (trim q)))"
proof -
  have t: "trim (85 # 83 # 69 # 32 # item @ 58 # q) = 85 # 83 # 69 # 32 # item @ 58 # trimEnd q"
    using trim_wrap[of 85 58 "[83, 69, 32] @ item" q] by (simp add: is_space_def)
  have d: "trim (item @ 58 # trimEnd q) = trimStart item @ 58 # trimEnd q"
    by (simp add: trim_item_qty trimEnd_idem)
  show ?thesis
    unfolding applyInventoryConsequence_def
    by (simp add: Let_def t d includes_js_single parts_item_qty[OF assms] removeItem_arg_def
          del: includes_js.simps split.simps)
qed

lemma set_inventory_item_qty:
  assumes "58 \<notin> set item" "58 \<notin> set q"
  shows "applyInventoryConsequence invt (Str (js ''SET inventory:'' @ item @ 58 # q)) =
         (let quantity = parseInt_or_1 (Some (trim q)) in
          if quantity > 0 then addItem invt (trim item) quantity
          else if quantity < 0 then removeItem invt (trim item) (abs quantity)
          else (False, invt))"
proof -
  let ?p = "[110, 118, 101, 110, 116, 111, 114, 121, 58] :: int list"
  have t: "trim (83 # 69 # 84 # 32 # 105 # ?p @ item @ 58 # q) =
           83 # 69 # 84 # 32 # 105 # ?p @ item @ 58 # trimEnd q"
    using trim_wrap[of 83 58 "[69, 84, 32, 105] @ ?p @ item" q] by (simp add: is_space_def)
  have d: "trim (105 # ?p @ item @ 58 # trimEnd q) = 105 # ?p @ item @ 58 # trimEnd q"
    using trim_wrap[of 105 58 "?p @ item" "trimEnd q"] by (simp add: is_space_def trimEnd_idem)
  have 1: "58 \<notin> set (trimEnd q)" using assms set_trimEnd by blast
  have p: "destructure2 (map trim (split 58 (item @ 58 # trimEnd q))) = (Some (trim item), Some (trim q))"
    by (simp add: split_append_sep[OF assms(1)] split_no_sep[OF 1] destructure2_def trim_trimEnd)
  have t': "trim (js ''SET inventory:'' @ item @ 58 # q) = js ''SET inventory:'' @ item @ 58 # trimEnd q"
    using t by simp
  have d': "trim (js ''inventory:'' @ item @ 58 # trimEnd q) = js ''inventory:'' @ item @ 58 # trimEnd q"
    using d by simp
  have inc: "includes_js (js ''SET inventory:'' @ item @ 58 # trimEnd q) (js ''inventory:'')"
    using includes_js_append[of "js ''SET ''" "js ''inventory:''" "item @ 58 # trimEnd q"] by simp
  have dr: "drop 4 (js ''SET inventory:'' @ item @ 58 # trimEnd q) = js ''inventory:'' @ item @ 58 # trimEnd q"
    by simp
  have dr2: "drop 10 (js ''inventory:'' @ item @ 58 # trimEnd q) = item @ 58 # trimEnd q"
    by simp
  have pre: "prefix (js ''SET '') (js ''SET inventory:'' @ item @ 58 # trimEnd q)"
       "\<not> prefix (js ''USE '') (js ''SET inventory:'' @ item @ 58 # trimEnd q)"
       "prefix (js ''inventory:'') (js ''inventory:'' @ item @ 58 # trimEnd q)"
       "js ''SET inventory:'' @ item @ 58 # q \<noteq> []"
    by simp_all
  show ?thesis
    unfolding applyInventoryConsequence_def jsarg.case t' Let_def
    unfolding pre inc dr d' dr2 p
    by (simp only: if_True if_False simp_thms prod.case addItem_arg_def removeItem_arg_def option.case pre inc)
qed

section \<open>Facts about the session operations\<close>

lemma addNewPromptLine_fields [simp]:
  "inventory (addNewPromptLine m s) = inventory s"
  "currentStep (addNewPromptLine m s) = currentStep s"
  "storyHistory (addNewPromptLine m s) = storyHistory s"
  "currentHistoryIndex (addNewPromptLine m s) = currentHistoryIndex s"
  "currentMenuItems (addNewPromptLine m s) = currentMenuItems s"
  "currentMenuType (addNewPromptLine m s) = currentMenuType s"
  "userName (addNewPromptLine m s) = userName s"
  by (simp_all add: addNewPromptLine_def)

lemma emit_fields [simp]:
  "inventory (emit es s) = inventory s"
  "currentStep (emit es s) = currentStep s"
  "storyHistory (emit es s) = storyHistory s"
  "currentHistoryIndex (emit es s) = currentHistoryIndex s"
  "currentMenuItems (emit es s) = currentMenuItems s"
  "currentMenuType (emit es s) = currentMenuType s"
  "userName (emit es s) = userName s"
  "isGoingBack (emit es s) = isGoingBack s"
  by (simp_all add: emit_def)

lemma pushStoryToHistory_fields [simp]:
  "inventory (pushStoryToHistory k s) = inventory s"
  "currentStep (pushStoryToHistory k s) = currentStep s"
  "userName (pushStoryToHistory k s) = userName s"
  "isGoingBack (pushStoryToHistory k s) = isGoingBack s"
  by (simp_all add: pushStoryToHistory_def Let_def)

lemma displayStoryAndMenu_inventory [simp]:
  "inventory (displayStoryAndMenu gd k s) = inventory s"
  by (simp add: displayStoryAndMenu_def Let_def split: option.splits)

lemma displayStoryAndMenu_userName [simp]:
  "userName (displayStoryAndMenu gd k s) = userName s"
  by (simp add: displayStoryAndMenu_def Let_def split: option.splits)

lemma displayStoryAndMenu_currentStep [simp]:
  "currentStep (displayStoryAndMenu gd k s) = Some k"
  by (simp add: displayStoryAndMenu_def Let_def split: option.splits)

lemma displayStoryAndMenu_going_back:
  "isGoingBack s \<Longrightarrow>
     storyHistory (displayStoryAndMenu gd k s) = storyHistory s \<and>
     currentHistoryIndex (displayStoryAndMenu gd k s) = currentHistoryIndex s"
  by (simp add: displayStoryAndMenu_def Let_def split: option.splits)

lemma wf_push: "wf_history s \<Longrightarrow> k \<noteq> [] \<Longrightarrow> wf_history (pushStoryToHistory k s)"
  by (auto simp: wf_history_def pushStoryToHistory_def Let_def slice0_def dest: in_set_takeD)

lemma wf_display: "wf_history s \<Longrightarrow> wf_history (displayStoryAndMenu gd k s)"
proof -
  assume w: "wf_history s"
  have a: "\<And>t f g h. wf_history t \<Longrightarrow> wf_history (t\<lparr>isGoingBack := f, currentStep := g\<rparr>)"
    by (simp add: wf_history_def)
  have b: "\<And>t. wf_history (displayStoryAndMenu gd k t) = wf_history
      (case currentStep t of None \<Rightarrow> t
       | Some cur \<Rightarrow> if \<not> isGoingBack t \<and> cur \<noteq> [] then pushStoryToHistory cur t else t)"
    by (simp add: displayStoryAndMenu_def Let_def wf_history_def addNewPromptLine_def emit_def
            split: option.splits)
  show ?thesis unfolding b using w by (auto split: option.splits intro: wf_push)
qed

lemma wf_returnToPreviousPage: "wf_history s \<Longrightarrow> wf_history (returnToPreviousPage gd s)"
proof -
  assume w: "wf_history s"
  have g: "wf_history (snd (goBackInHistory (s\<lparr>isGoingBack := True\<rparr>)))"
    using w by (auto simp: wf_history_def goBackInHistory_def)
  show ?thesis
    using g by (auto simp: returnToPreviousPage_def Let_def wf_history_def[of "addNewPromptLine _ _"]
        split: prod.splits option.splits intro: wf_display) (auto simp: wf_history_def)
qed

lemma wf_history_cong:
  "storyHistory s' = storyHistory s \<Longrightarrow> currentHistoryIndex s' = currentHistoryIndex s \<Longrightarrow>
   wf_history s' = wf_history s"
  by (simp add: wf_history_def)

lemma wf_initialSession: "wf_history initialSession"
  by (simp add: wf_history_def initialSession_def)

lemma wf_displayMainMenu: "wf_history (displayMainMenu gd s)"
  by (simp add: wf_history_def displayMainMenu_def clearStoryHistory_def emit_def)

lemma wf_menus:
  "wf_history (displayOptionsMenu s) = wf_history s"
  "wf_history (displayFontSizeMenu s) = wf_history s"
  "wf_history (displayFontColorMenu s) = wf_history s"
  "wf_history (toCommandPrompt s) = wf_history s"
  "wf_history (addNewPromptLine m s) = wf_history s"
  "wf_history (emit es s) = wf_history s"
  by (simp_all add: wf_history_def displayOptionsMenu_def displayFontSizeMenu_def
        displayFontColorMenu_def toCommandPrompt_def addNewPromptLine_def emit_def)

lemma wf_handleMenuNavigation:
  assumes "wf_history s" and "handleMenuNavigation gd typed k s = Inr s'"
  shows "wf_history s'"
proof -
  have upd: "\<And>t g. wf_history (t\<lparr>currentMenuItems := g\<rparr>) = wf_history t"
            "\<And>t g. wf_history (t\<lparr>currentMenuType := g\<rparr>) = wf_history t"
            "\<And>t g. wf_history (t\<lparr>selectedMenuItemIndex := g\<rparr>) = wf_history t"
            "\<And>t g. wf_history (t\<lparr>currentStep := g\<rparr>) = wf_history t"
            "\<And>t g. wf_history (t\<lparr>userName := g\<rparr>) = wf_history t"
            "\<And>t g. wf_history (t\<lparr>isGoingBack := g\<rparr>) = wf_history t"
    by (simp_all add: wf_history_def)
  have main: "wf_history (mainMenuEnter gd typed s)"
    using assms(1)
    by (auto simp: mainMenuEnter_def Let_def wf_menus upd split: option.splits
          intro!: wf_display)
  have opt: "wf_history (optionsEnter s)" "wf_history (fontSizeEnter s)" "wf_history (fontColorEnter s)"
    using assms(1)
    by (auto simp: optionsEnter_def fontSizeEnter_def fontColorEnter_def wf_menus
          split: option.splits)
  have ending: "wf_history (endingOptionsEnter gd s)"
    using assms(1)
    by (auto simp: endingOptionsEnter_def wf_menus upd split: option.splits
          intro!: wf_returnToPreviousPage)
  have story: "\<And>r. storyChoicesEnter gd s = Inr r \<Longrightarrow> wf_history r"
    using assms(1)
    by (auto simp: storyChoicesEnter_def Let_def wf_menus upd
          split: option.splits if_splits intro!: wf_display wf_returnToPreviousPage)
  show ?thesis
    using assms main opt ending story
    by (auto simp: handleMenuNavigation_def upd split: if_splits key.splits menuType.splits)
qed

lemma wf_opened: "wf_history (opened g)"
  by (simp add: opened_def showLoaded_def Let_def wf_displayMainMenu)

lemma wf_press: "wf_history s \<Longrightarrow> wf_history (press g k s)"
  using wf_handleMenuNavigation [of s g "[]" k]
  by (auto simp: press_def split: sum.splits)

lemma wf_started: "wf_history (started g)"
  by (simp add: started_def wf_press wf_opened)

lemma wf_moved: "wf_history (moved g)"
  by (simp add: moved_def wf_press wf_started)

lemma return_entry_goes_back:
  assumes "currentMenuItems s \<noteq> []" and "currentMenuType s = StoryChoices"
    and "currentStep s = Some cur" and "map_of (steps gd) cur = Some st"
    and "\<not> selectedMenuItemIndex s < length (choices st)"
    and "index (currentMenuItems s) (selectedMenuItemIndex s) = Some item"
    and "includes_js item (js ''Return to the previous page'')"
  shows "handleMenuNavigation gd typed Enter s = Inr (returnToPreviousPage gd s)"
  using assms
  by (simp add: handleMenuNavigation_def storyChoicesEnter_def Let_def index_def
        del: includes_js.simps)

lemma index_Some [simp]: "i < length xs \<Longrightarrow> index xs i = Some (xs ! i)"
  by (simp add: index_def)

lemma index_None [simp]: "\<not> i < length xs \<Longrightarrow> index xs i = None"
  by (simp add: index_def)

lemma choiceMenuItem_userName: "userName s' = userName s \<Longrightarrow> choiceMenuItem s' = choiceMenuItem s"
  by (rule ext) (simp add: choiceMenuItem_def withUserName_def)

lemma displayStoryAndMenu_menu:
  assumes "map_of (steps gd) cur = Some st" and "choices st \<noteq> []"
  shows "currentMenuType (displayStoryAndMenu gd cur s) = StoryChoices"
    and "take (length (choices st)) (currentMenuItems (displayStoryAndMenu gd cur s)) =
         map (choiceMenuItem s) (choices st)"
    and "length (choices st) \<le> length (currentMenuItems (displayStoryAndMenu gd cur s))"
proof -
  let ?s2 = "(case currentStep s of None \<Rightarrow> s
       | Some c \<Rightarrow> if \<not> isGoingBack s \<and> c \<noteq> [] then pushStoryToHistory c s else s)
        \<lparr>isGoingBack := False, currentStep := Some cur\<rparr>"
  let ?s3 = "emit [Appended (withUserName ?s2 (narrative st) @ [NEWLINE, NEWLINE])] ?s2"
  have u: "userName ?s3 = userName s" by (simp split: option.splits)
  have c: "choiceMenuItem ?s3 = choiceMenuItem s" by (rule choiceMenuItem_userName[OF u])
  show "currentMenuType (displayStoryAndMenu gd cur s) = StoryChoices"
    using assms by (simp add: displayStoryAndMenu_def Let_def)
  show "take (length (choices st)) (currentMenuItems (displayStoryAndMenu gd cur s)) =
         map (choiceMenuItem s) (choices st)"
    using assms by (simp add: displayStoryAndMenu_def Let_def c)
  show "length (choices st) \<le> length (currentMenuItems (displayStoryAndMenu gd cur s))"
    using assms by (simp add: displayStoryAndMenu_def Let_def)
qed

lemma select_step_choice:
  assumes "currentMenuItems s \<noteq> []" and "currentMenuType s = StoryChoices"
    and "currentStep s = Some cur" and "map_of (steps gd) cur = Some st"
    and "selectedMenuItemIndex s < length (choices st)"
    and "\<not> prefix (js ''ENDING_'')
           (replace_first (js ''STEP_'') [] (target (choices st ! selectedMenuItemIndex s)))"
  shows "handleMenuNavigation gd typed Enter s =
         Inr (displayStoryAndMenu gd
                (replace_first (js ''STEP_'') [] (target (choices st ! selectedMenuItemIndex s)))
                (s\<lparr>currentStep :=
                     Some (replace_first (js ''STEP_'') []
                             (target (choices st ! selectedMenuItemIndex s)))\<rparr>))"
  using assms by (simp add: handleMenuNavigation_def storyChoicesEnter_def Let_def)

lemma storyChoicesEnter_inventory:
  "storyChoicesEnter gd s = Inr s' \<Longrightarrow> inventory s' = inventory s"
  by (auto simp: storyChoicesEnter_def Let_def returnToPreviousPage_def goBackInHistory_def
      split: option.splits if_splits prod.splits)

lemma select_choice_returns:
  assumes "currentMenuItems s \<noteq> []" and "currentMenuType s = StoryChoices"
    and "currentStep s = Some cur" and "map_of (steps gd) cur = Some st"
    and "selectedMenuItemIndex s < length (choices st)"
  shows "\<exists>s'. handleMenuNavigation gd typed Enter s = Inr s'"
  using assms by (simp add: handleMenuNavigation_def storyChoicesEnter_def Let_def split: option.splits)

text \<open>
  Neither entry of the ending menu is a case label of its branch: the labels are
  \<^verbatim>\<open>Return to the previous Page\<close> and \<^verbatim>\<open>Quit to command prompt\<close>.
\<close>

lemma ending_entry_is_invalid:
  assumes "currentMenuItems s = [js ''Return to the previous page'', js ''Quit to the command prompt'']"
    and "currentMenuType s = EndingOptions"
  shows "handleMenuNavigation gd typed Enter s =
           Inr (addNewPromptLine (Some (js ''Invalid choice.'')) s)"
proof -
  have ne: "js ''Return to the previous page'' \<noteq> js ''Return to the previous Page''"
           "js ''Return to the previous page'' \<noteq> js ''Quit to command prompt''"
           "js ''Quit to the command prompt'' \<noteq> js ''Return to the previous Page''"
           "js ''Quit to the command prompt'' \<noteq> js ''Quit to command prompt''"
    by code_simp+
  have "endingOptionsEnter gd s = addNewPromptLine (Some (js ''Invalid choice.'')) s"
  proof (cases "index (currentMenuItems s) (selectedMenuItemIndex s)")
    case None
    then show ?thesis by (simp add: endingOptionsEnter_def)
  next
    case (Some item)
    then have "item = js ''Return to the previous page'' \<or> item = js ''Quit to the command prompt''"
      unfolding assms(1) index_def by (auto simp: nth_Cons' split: if_splits)
    then show ?thesis using Some ne by (auto simp: endingOptionsEnter_def)
  qed
  then show ?thesis using assms by (simp add: handleMenuNavigation_def)
qed

lemma returnToPreviousPage_nothing_before:
  assumes "\<not> currentHistoryIndex s > 0"
  shows "returnToPreviousPage gd s =
           addNewPromptLine (Some (js ''No previous page to return to.'')) (s\<lparr>isGoingBack := True\<rparr>)"
  using assms by (simp add: returnToPreviousPage_def goBackInHistory_def)
section \<open>Facts about the block parsers\<close>


lemma parseChoiceLine_ok:
  "choice_line_ok l \<Longrightarrow> parseChoiceLine l acc = Inr (acc @ choicesOfLine l)"
  by (auto simp: choice_line_ok_def parseChoiceLine_def choicesOfLine_def Let_def split: option.splits)


lemma forEach_choice_lines_ok:
  "list_all choice_line_ok ls \<Longrightarrow>
   forEach parseChoiceLine ls acc = Inr (acc @ concat (map choicesOfLine ls))"
  by (induction ls arbitrary: acc) (simp_all add: parseChoiceLine_ok)


section \<open>The example documents, loaded\<close>

text \<open>
  The adventure is what \<^verbatim>\<open>parseFile\<close> makes of its text, and \<open>opened adventure\<close> is the
  session that the \<^verbatim>\<open>load\<close> command leaves on a page just loaded.
\<close>

lemma adventure_parsed: "parseFile adventure_text = Inr adventure"
  by code_simp

lemma adventure_opened:
  "loadAdventureFile (Some (js ''game.adv'', adventure_text)) initialSession =
   (Some adventure, opened adventure)"
  by code_simp

lemma dangling_opened:
  "loadAdventureFile (Some (js ''game.adv'', dangling_text)) initialSession =
   (Some dangling, opened dangling)"
  by code_simp

section \<open>Conditions (C7)\<close>

lemmas eval_defs = checkInventoryCondition_def applyInventoryConsequence_def destructure2_def
  trim_def trimStart_def trimEnd_def hasItem_arg_def hasItem_def addItem_arg_def removeItem_arg_def
  addItem_def removeItem_def getItemQuantity_def parseInt_or_1_def parseInt_arg_def js_parseInt_def
  is_space_def is_radix_digit_def digit_value_def Let_def spec_item_form_def spec_item_qty_form_def

lemma condition_item:
  assumes "c \<noteq> []" "58 \<notin> set c"
  shows "checkInventoryCondition invt (Str c) = (trim c \<noteq> [] \<and> getItemQuantity invt (trim c) \<ge> 1)"
  using assms by (simp add: checkInventoryCondition_def includes_js_single hasItem_def)

lemma condition_parts:
  assumes "58 \<notin> set a"
  shows "checkInventoryCondition invt (Str (a @ 58 # b)) =
         (trim a \<noteq> [] \<and> getItemQuantity invt (trim a) \<ge> parseInt_or_1 (Some (trim (hd (split 58 b)))))"
proof -
  obtain p ps where s: "split 58 b = p # ps" using split_nonempty[of 58 b] by (cases "split 58 b") auto
  show ?thesis
    by (simp add: checkInventoryCondition_def includes_js_single split_append_sep[OF assms] s
        destructure2_def hasItem_arg_def hasItem_def del: split.simps)
qed

lemma condition_not_always:
  assumes "c \<noteq> []"
  shows "\<exists>invt. \<not> checkInventoryCondition invt (Str c)"
proof (cases "58 \<in> set c")
  case False
  then have "\<not> checkInventoryCondition [] (Str c)"
    using assms by (simp add: condition_item getItemQuantity_def)
  then show ?thesis by blast
next
  case True
  then obtain a b where c: "c = a @ 58 # b" "58 \<notin> set a"
    by (meson split_list_first)
  let ?n = "parseInt_or_1 (Some (trim (hd (split 58 b))))"
  have "\<not> checkInventoryCondition [(trim a, ?n - 1)] (Str c)"
    by (simp add: c condition_parts getItemQuantity_def)
  then show ?thesis by blast
qed

text \<open>
  Claim C7, as the code has it. \<^verbatim>\<open>checkInventoryCondition\<close> reads a non-empty text
  without a colon as \<^verbatim>\<open><item>\<close>: the trimmed text must be on hand at least once. It
  reads \<^verbatim>\<open><item>:<qty>\<close> as: the trimmed item must be on hand at least
  \<^verbatim>\<open>qty\<close> times, where a quantity that is not a number or is 0 counts as 1. The
  only text that is satisfied whatever the inventory holds is the empty text; every other
  text is tested against the inventory.
\<close>

theorem checkInventoryCondition_forms_and_default:
  "(c \<noteq> [] \<and> \<not> includes_js c [COLON] \<longrightarrow>
      checkInventoryCondition invt (Str c) = hasItem invt (trim c) 1) \<and>
   (\<not> includes_js item [COLON] \<and> \<not> includes_js q [COLON] \<longrightarrow>
      checkInventoryCondition invt (Str (item @ COLON # q)) =
        hasItem invt (trim item)
          (case js_parseInt (trim q) of None \<Rightarrow> 1 | Some n \<Rightarrow> if n = 0 then 1 else n)) \<and>
   ((\<forall>invt'. checkInventoryCondition invt' (Str c)) \<longleftrightarrow> c = [])"
proof (intro conjI impI)
  assume "c \<noteq> [] \<and> \<not> includes_js c [COLON]"
  then show "checkInventoryCondition invt (Str c) = hasItem invt (trim c) 1"
    by (simp add: condition_item includes_js_single hasItem_def)
next
  assume a: "\<not> includes_js item [COLON] \<and> \<not> includes_js q [COLON]"
  then have "split 58 q = [q]" by (simp add: includes_js_single split_no_sep)
  then show "checkInventoryCondition invt (Str (item @ COLON # q)) =
        hasItem invt (trim item)
          (case js_parseInt (trim q) of None \<Rightarrow> 1 | Some n \<Rightarrow> if n = 0 then 1 else n)"
    using a by (simp add: condition_parts includes_js_single hasItem_def parseInt_or_1_def parseInt_arg_def)
next
  show "(\<forall>invt'. checkInventoryCondition invt' (Str c)) \<longleftrightarrow> c = []"
  proof
    assume "\<forall>invt'. checkInventoryCondition invt' (Str c)"
    then show "c = []" using condition_not_always[of c] by blast
  next
    assume "c = []"
    then show "\<forall>invt'. checkInventoryCondition invt' (Str c)"
      by (simp add: checkInventoryCondition_def)
  qed
qed

text \<open>
  Claim C7 as stated fails. The texts \<^verbatim>\<open>:\<close> and \<^verbatim>\<open>key:abc\<close> match neither
  form, yet on the empty inventory they are not satisfied; and \<^verbatim>\<open>key:0\<close>, of the
  second form, is not satisfied although the quantity on hand is at least 0.
\<close>

theorem checkInventoryCondition_permissive_counterexample:
  "\<not> spec_item_form (js '':'') \<and> \<not> spec_item_qty_form (js '':'') \<and>
   \<not> checkInventoryCondition [] (Str (js '':'')) \<and>
   \<not> spec_item_form (js ''key:abc'') \<and> \<not> spec_item_qty_form (js ''key:abc'') \<and>
   \<not> checkInventoryCondition [] (Str (js ''key:abc'')) \<and>
   spec_item_qty_form (js ''key:0'') \<and> getItemQuantity [] (js ''key'') \<ge> 0 \<and>
   \<not> checkInventoryCondition [] (Str (js ''key:0''))"
  by (simp add: eval_defs)

text \<open>The theorem of C7 at the inventory \<^verbatim>\<open>{key: 2}\<close>.\<close>

theorem checkInventoryCondition_forms_witness:
  "checkInventoryCondition [(js ''key'', 2)] (Str (js ''key'')) \<and>
   checkInventoryCondition [(js ''key'', 2)] (Str (js ''key:2'')) \<and>
   \<not> checkInventoryCondition [(js ''key'', 2)] (Str (js ''key:3'')) \<and>
   \<not> (\<forall>invt'. checkInventoryCondition invt' (Str (js ''key'')))"
  using checkInventoryCondition_forms_and_default[of "js ''key''" "[(js ''key'', 2)]" "js ''key''" "js ''2''"]
        checkInventoryCondition_forms_and_default[of "js ''key''" "[(js ''key'', 2)]" "js ''key''" "js ''3''"]
  by (simp add: eval_defs)

section \<open>Consequences with a quantity of zero (C10)\<close>

text \<open>
  Claim C10. In \<^verbatim>\<open>applyInventoryConsequence\<close> a quantity suffix that is not a number
  or parses to 0 is taken as 1: \<^verbatim>\<open>USE <item>:<q>\<close> is \<^verbatim>\<open>removeItem(item, 1)\<close>
  and \<^verbatim>\<open>SET inventory:<item>:<q>\<close> is \<^verbatim>\<open>addItem(item, 1)\<close>. So an item that is
  on hand loses exactly one unit, and a named item gains exactly one unit.
\<close>

theorem applyInventoryConsequence_zero_quantity_is_one:
  assumes "\<not> includes_js item [COLON]" and "\<not> includes_js q [COLON]"
    and "js_parseInt (trim q) = None \<or> js_parseInt (trim q) = Some 0"
  shows "applyInventoryConsequence invt (Str (js ''USE '' @ item @ COLON # q)) =
           removeItem invt (trim item) 1 \<and>
         applyInventoryConsequence invt (Str (js ''SET inventory:'' @ item @ COLON # q)) =
           addItem invt (trim item) 1 \<and>
         (hasItem invt (trim item) 1 \<longrightarrow>
            getItemQuantity
              (snd (applyInventoryConsequence invt (Str (js ''USE '' @ item @ COLON # q))))
              (trim item) = getItemQuantity invt (trim item) - 1) \<and>
         (trim item \<noteq> [] \<longrightarrow>
            getItemQuantity
              (snd (applyInventoryConsequence invt (Str (js ''SET inventory:'' @ item @ COLON # q))))
              (trim item) = getItemQuantity invt (trim item) + 1)"
proof -
  have c: "58 \<notin> set item" "58 \<notin> set q"
    using assms(1,2) by (simp_all add: includes_js_single)
  have one: "parseInt_or_1 (Some (trim q)) = 1"
    using assms(3) by (rule parseInt_or_1_default)
  have u: "applyInventoryConsequence invt (Str (js ''USE '' @ item @ COLON # q)) =
           removeItem invt (trim item) 1"
    using use_item_qty[OF c, of invt] by (simp only: one)
  have s: "applyInventoryConsequence invt (Str (js ''SET inventory:'' @ item @ COLON # q)) =
           addItem invt (trim item) 1"
    using set_inventory_item_qty[OF c, of invt] by (simp only: one Let_def) simp
  have ru: "hasItem invt (trim item) 1 \<longrightarrow>
      getItemQuantity (snd (removeItem invt (trim item) 1)) (trim item) =
      getItemQuantity invt (trim item) - 1"
    by (auto simp: removeItem_def hasItem_def getItemQuantity_def Let_def update_conv' delete_conv'
          split: option.splits)
  have rs: "trim item \<noteq> [] \<longrightarrow>
      getItemQuantity (snd (addItem invt (trim item) 1)) (trim item) =
      getItemQuantity invt (trim item) + 1"
    by (simp add: addItem_def getItemQuantity_def update_conv')
  show ?thesis
    unfolding u s using ru rs by simp
qed

text \<open>
  The theorem of C10 at \<^verbatim>\<open>USE key:0\<close> and \<^verbatim>\<open>SET inventory:key:0\<close> on the inventory
  \<^verbatim>\<open>{key: 3}\<close>: the quantity becomes 2 and 4.
\<close>

theorem applyInventoryConsequence_zero_quantity_witness:
  "getItemQuantity
     (snd (applyInventoryConsequence [(js ''key'', 3)] (Str (js ''USE key:0'')))) (js ''key'') = 2 \<and>
   getItemQuantity
     (snd (applyInventoryConsequence [(js ''key'', 3)] (Str (js ''SET inventory:key:0''))))
     (js ''key'') = 4"
  using applyInventoryConsequence_zero_quantity_is_one
          [of "js ''key''" "js ''0''" "[(js ''key'', 3)]"]
  by (simp add: eval_defs)

section \<open>Choices with unmet conditions (C1)\<close>

text \<open>
  Claim C1 at step 1 of the adventure, where the code parts from it. The step offers
  \<^verbatim>\<open>A) Pick the lock\<close> under the condition \<^verbatim>\<open>lockpick\<close>. The inventory holds a
  key and no lockpick, so \<^verbatim>\<open>checkInventoryCondition\<close> says that the condition is not
  satisfied; yet the choice is on the menu, and entering it moves the session from step 1 to
  step 2. The check is written and never called: \<^verbatim>\<open>checkInventoryCondition\<close> is
  documented as the check of a condition \<^verbatim>\<open>from choice parsing\<close>,
  \<^verbatim>\<open>parseChoices\<close> stores the conditions of every choice, and \<^verbatim>\<open>menuHandler.js\<close>
  imports \<^verbatim>\<open>getInventoryManager\<close> without using it.
\<close>

theorem unmet_condition_choice_counterexample:
  "conditions (choices step_one ! 0) = [js ''lockpick''] \<and>
   \<not> checkInventoryCondition (inventory (started adventure)) (Str (js ''lockpick'')) \<and>
   currentMenuItems (started adventure) =
     [js ''A) Pick the lock'', js ''B) Use key'', js ''C) Go back to sleep''] \<and>
   selectedMenuItemIndex (started adventure) = 0 \<and>
   view (started adventure) = (Some (js ''1''), [js ''1''], 0, [(js ''key'', 1)]) \<and>
   view (moved adventure) = (Some (js ''2''), [js ''1'', js ''2''], 1, [(js ''key'', 1)])"
  by code_simp

text \<open>
  Claim C1 on the code, at every step. The conditions of a choice are not read by the
  traversal: when a step is shown, each of its choices is on the menu, and entering a choice
  whose target is a step is accepted whatever its conditions and whatever the inventory; the
  session enters the target step and the inventory stays as it was. So a choice with an unmet
  condition is neither left out of the menu nor rejected.
\<close>

theorem choices_offered_and_accepted_whatever_conditions:
  assumes "map_of (steps gd) cur = Some st" and "i < length (choices st)"
    and "\<not> prefix (js ''ENDING_'') (replace_first (js ''STEP_'') [] (target (choices st ! i)))"
  shows "currentMenuItems (displayStoryAndMenu gd cur s) ! i = choiceMenuItem s (choices st ! i) \<and>
         (\<exists>s'. handleMenuNavigation gd typed Enter
                  ((displayStoryAndMenu gd cur s)\<lparr>selectedMenuItemIndex := i\<rparr>) = Inr s' \<and>
               currentStep s' = Some (replace_first (js ''STEP_'') [] (target (choices st ! i))) \<and>
               inventory s' = inventory s)"
proof -
  let ?d = "displayStoryAndMenu gd cur s"
  have ne: "choices st \<noteq> []" using assms(2) by auto
  note m = displayStoryAndMenu_menu[OF assms(1) ne, of s]
  have "take (length (choices st)) (currentMenuItems ?d) ! i = map (choiceMenuItem s) (choices st) ! i"
    by (simp only: m(2))
  then have offered: "currentMenuItems ?d ! i = choiceMenuItem s (choices st ! i)"
    using assms(2) by simp
  have items: "currentMenuItems (?d\<lparr>selectedMenuItemIndex := i\<rparr>) \<noteq> []"
    using m(3) assms(2) by auto
  have sel: "handleMenuNavigation gd typed Enter (?d\<lparr>selectedMenuItemIndex := i\<rparr>) =
      Inr (displayStoryAndMenu gd (replace_first (js ''STEP_'') [] (target (choices st ! i)))
             (?d\<lparr>selectedMenuItemIndex := i,
                 currentStep := Some (replace_first (js ''STEP_'') [] (target (choices st ! i)))\<rparr>))"
    using select_step_choice[of "?d\<lparr>selectedMenuItemIndex := i\<rparr>" cur gd st typed]
      items m(1) assms by simp
  show ?thesis
    using offered sel by simp
qed

text \<open>
  The theorem of C1 at step 1 of the adventure, shown from its main menu, for the choice
  whose condition \<^verbatim>\<open>lockpick\<close> is not satisfied.
\<close>

theorem choices_offered_and_accepted_witness:
  "map_of (steps adventure) (js ''1'') = Some step_one \<and> 0 < length (choices step_one) \<and>
   \<not> prefix (js ''ENDING_'') (replace_first (js ''STEP_'') [] (target (choices step_one ! 0))) \<and>
   \<not> checkInventoryCondition (inventory (opened adventure))
         (Str (hd (conditions (choices step_one ! 0)))) \<and>
   currentMenuItems (displayStoryAndMenu adventure (js ''1'') (opened adventure)) ! 0 =
     choiceMenuItem (opened adventure) (choices step_one ! 0) \<and>
   (\<exists>s'. handleMenuNavigation adventure [] Enter
            ((displayStoryAndMenu adventure (js ''1'') (opened adventure))
               \<lparr>selectedMenuItemIndex := 0\<rparr>) = Inr s' \<and>
        currentStep s' = Some (replace_first (js ''STEP_'') [] (target (choices step_one ! 0))) \<and>
        inventory s' = inventory (opened adventure))"
proof -
  have h1: "map_of (steps adventure) (js ''1'') = Some step_one" by code_simp
  have h2: "0 < length (choices step_one)" by code_simp
  have h3: "\<not> prefix (js ''ENDING_'')
              (replace_first (js ''STEP_'') [] (target (choices step_one ! 0)))" by code_simp
  have h4: "\<not> checkInventoryCondition (inventory (opened adventure))
              (Str (hd (conditions (choices step_one ! 0))))" by code_simp
  from choices_offered_and_accepted_whatever_conditions [OF h1 h2 h3, of "opened adventure" "[]"]
  show ?thesis using h1 h2 h3 h4 by blast
qed

section \<open>Consequences of a choice (C2)\<close>

text \<open>
  Claim C2 at step 1 of the adventure, where the code parts from it. The second choice of the
  step carries \<^verbatim>\<open>USE key\<close>. The inventory starts as \<^verbatim>\<open>{key: 1}\<close>; entering the
  choice moves the session to step 2 and the key is still on hand, while
  \<^verbatim>\<open>applyInventoryConsequence\<close>, called by hand, removes it. The function is written
  and never called: it is documented as applying a consequence
  \<^verbatim>\<open>from choice selection\<close>, \<^verbatim>\<open>parseChoices\<close> stores the consequences of every
  choice, and the branch that handles the selection of a choice does not touch the inventory.
\<close>

theorem selection_applies_consequence_counterexample:
  "consequences (choices step_one ! 1) = [js ''USE key''] \<and>
   view (started adventure) = (Some (js ''1''), [js ''1''], 0, [(js ''key'', 1)]) \<and>
   view (moved_second adventure) = (Some (js ''2''), [js ''1'', js ''2''], 1, [(js ''key'', 1)]) \<and>
   hasItem (inventory (moved_second adventure)) (js ''key'') 1 \<and>
   \<not> hasItem (snd (applyInventoryConsequence [(js ''key'', 1)] (Str (js ''USE key'')))) (js ''key'') 1"
  by code_simp

text \<open>
  Claim C2 on the code, at every step. Entering a choice of the current step always returns a
  session, and its inventory is the inventory before: no consequence of the choice is applied.
\<close>

theorem selection_leaves_inventory_unchanged:
  assumes "currentMenuItems s \<noteq> []" and "currentMenuType s = StoryChoices"
    and "currentStep s = Some cur" and "map_of (steps gd) cur = Some st"
    and "selectedMenuItemIndex s < length (choices st)"
  shows "\<exists>s'. handleMenuNavigation gd typed Enter s = Inr s' \<and> inventory s' = inventory s"
proof -
  obtain s' where r: "handleMenuNavigation gd typed Enter s = Inr s'"
    using select_choice_returns[OF assms] by blast
  then have "storyChoicesEnter gd s = Inr s'"
    using assms(1,2) by (simp add: handleMenuNavigation_def)
  then have "inventory s' = inventory s" by (rule storyChoicesEnter_inventory)
  with r show ?thesis by blast
qed

text \<open>
  The theorem of C2 at step 1 of the adventure, the cursor on the choice that carries
  \<^verbatim>\<open>USE key\<close>.
\<close>

theorem selection_leaves_inventory_unchanged_witness:
  "currentMenuItems (press adventure ArrowDown (started adventure)) \<noteq> [] \<and>
   currentMenuType (press adventure ArrowDown (started adventure)) = StoryChoices \<and>
   currentStep (press adventure ArrowDown (started adventure)) = Some (js ''1'') \<and>
   map_of (steps adventure) (js ''1'') = Some step_one \<and>
   selectedMenuItemIndex (press adventure ArrowDown (started adventure)) = 1 \<and>
   consequences (choices step_one ! 1) = [js ''USE key''] \<and>
   (\<exists>s'. handleMenuNavigation adventure [] Enter (press adventure ArrowDown (started adventure)) =
          Inr s' \<and>
         inventory s' = inventory (press adventure ArrowDown (started adventure)))"
proof -
  have h: "currentMenuItems (press adventure ArrowDown (started adventure)) \<noteq> [] \<and>
           currentMenuType (press adventure ArrowDown (started adventure)) = StoryChoices \<and>
           currentStep (press adventure ArrowDown (started adventure)) = Some (js ''1'') \<and>
           map_of (steps adventure) (js ''1'') = Some step_one \<and>
           selectedMenuItemIndex (press adventure ArrowDown (started adventure)) = 1 \<and>
           consequences (choices step_one ! 1) = [js ''USE key''] \<and>
           selectedMenuItemIndex (press adventure ArrowDown (started adventure))
             < length (choices step_one)"
    by code_simp
  from selection_leaves_inventory_unchanged
         [of "press adventure ArrowDown (started adventure)" "js ''1''" adventure step_one "[]"] h
  show ?thesis by blast
qed

section \<open>Going back (C5)\<close>

text \<open>
  Claim C5 at the two places where the code parts from it. At an ending the menu offers
  \<^verbatim>\<open>Return to the previous page\<close>, but the branch of the ending menu compares the entry
  with \<^verbatim>\<open>Return to the previous Page\<close>: entering it, from the ending reached through
  steps 1 and 2, goes nowhere; the history keeps its two entries, step 2 stays the current
  step, and \<^verbatim>\<open>Invalid choice.\<close> is sent to the prompt. And with no step before the
  current one the body of the branch \<^verbatim>\<open>Return to the previous page\<close> is no no-op: it
  leaves \<^verbatim>\<open>isGoingBack\<close> set, so that the next choice entered, which leads from step 1 to
  step 2, is not added to the history.
\<close>

theorem goBack_from_ending_counterexample:
  "view (moved adventure) = (Some (js ''2''), [js ''1'', js ''2''], 1, [(js ''key'', 1)]) \<and>
   currentMenuType (ended adventure) = EndingOptions \<and>
   currentMenuItems (ended adventure) =
     [js ''Return to the previous page'', js ''Quit to the command prompt''] \<and>
   selectedMenuItemIndex (ended adventure) = 0 \<and>
   view (ended adventure) = (Some (js ''2''), [js ''1'', js ''2''], 1, [(js ''key'', 1)]) \<and>
   view (press adventure Enter (ended adventure)) =
     (Some (js ''2''), [js ''1'', js ''2''], 1, [(js ''key'', 1)]) \<and>
   currentMenuType (press adventure Enter (ended adventure)) = EndingOptions \<and>
   last (terminal (press adventure Enter (ended adventure))) =
     PromptLine (Some (js ''Invalid choice.'')) \<and>
   view (started adventure) = (Some (js ''1''), [js ''1''], 0, [(js ''key'', 1)]) \<and>
   \<not> isGoingBack (started adventure) \<and>
   isGoingBack (returnToPreviousPage adventure (started adventure)) \<and>
   view (press adventure Enter (started adventure)) =
     (Some (js ''2''), [js ''1'', js ''2''], 1, [(js ''key'', 1)]) \<and>
   view (press adventure Enter (returnToPreviousPage adventure (started adventure))) =
     (Some (js ''2''), [js ''1''], 0, [(js ''key'', 1)])"
  by code_simp

text \<open>
  Claim C5 on the code, case by case. The steps visited before the current one are the
  history entries below the index. In a session whose history is well formed,
  \<^verbatim>\<open>Return to the previous page\<close> of a step's menu runs \<open>returnToPreviousPage\<close>. With
  a step before the current one it enters the most recent of them and leaves the ones before
  it; the inventory is untouched, so no consequence is applied. With none it sends
  \<^verbatim>\<open>No previous page to return to.\<close> to the prompt and leaves \<^verbatim>\<open>isGoingBack\<close> set:
  the step shown next, whichever it is, is not added to the history. In the menu of an
  ending, entering either entry sends \<^verbatim>\<open>Invalid choice.\<close> to the prompt and does
  nothing else: from an ending nothing goes back.
\<close>

theorem goBack_as_the_menus_run_it:
  assumes "wf_history s"
  shows "(history_before s \<noteq> [] \<longrightarrow>
            currentStep (returnToPreviousPage gd s) = Some (last (history_before s)) \<and>
            history_before (returnToPreviousPage gd s) = butlast (history_before s) \<and>
            storyHistory (returnToPreviousPage gd s) = storyHistory s \<and>
            inventory (returnToPreviousPage gd s) = inventory s) \<and>
         (history_before s = [] \<longrightarrow>
            returnToPreviousPage gd s =
              addNewPromptLine (Some (js ''No previous page to return to.''))
                (s\<lparr>isGoingBack := True\<rparr>) \<and>
            storyHistory (displayStoryAndMenu gd k (returnToPreviousPage gd s)) = storyHistory s \<and>
            currentHistoryIndex (displayStoryAndMenu gd k (returnToPreviousPage gd s)) =
              currentHistoryIndex s) \<and>
         (currentMenuItems s \<noteq> [] \<and> currentMenuType s = StoryChoices \<and>
          currentStep s = Some cur \<and> map_of (steps gd) cur = Some st \<and>
          \<not> selectedMenuItemIndex s < length (choices st) \<and>
          index (currentMenuItems s) (selectedMenuItemIndex s) = Some item \<and>
          includes_js item (js ''Return to the previous page'') \<longrightarrow>
            handleMenuNavigation gd typed Enter s = Inr (returnToPreviousPage gd s)) \<and>
         (currentMenuItems s = [js ''Return to the previous page'', js ''Quit to the command prompt''] \<and>
          currentMenuType s = EndingOptions \<longrightarrow>
            handleMenuNavigation gd typed Enter s =
              Inr (addNewPromptLine (Some (js ''Invalid choice.'')) s))"
proof -
  have entry: "currentMenuItems s \<noteq> [] \<and> currentMenuType s = StoryChoices \<and>
          currentStep s = Some cur \<and> map_of (steps gd) cur = Some st \<and>
          \<not> selectedMenuItemIndex s < length (choices st) \<and>
          index (currentMenuItems s) (selectedMenuItemIndex s) = Some item \<and>
          includes_js item (js ''Return to the previous page'') \<longrightarrow>
            handleMenuNavigation gd typed Enter s = Inr (returnToPreviousPage gd s)"
    using return_entry_goes_back [of s cur gd st item typed] by blast
  have ending: "currentMenuItems s =
            [js ''Return to the previous page'', js ''Quit to the command prompt''] \<and>
          currentMenuType s = EndingOptions \<longrightarrow>
            handleMenuNavigation gd typed Enter s =
              Inr (addNewPromptLine (Some (js ''Invalid choice.'')) s)"
    using ending_entry_is_invalid [of s gd typed] by blast
  have goes: "(history_before s \<noteq> [] \<longrightarrow>
            currentStep (returnToPreviousPage gd s) = Some (last (history_before s)) \<and>
            history_before (returnToPreviousPage gd s) = butlast (history_before s) \<and>
            storyHistory (returnToPreviousPage gd s) = storyHistory s \<and>
            inventory (returnToPreviousPage gd s) = inventory s) \<and>
         (history_before s = [] \<longrightarrow>
            returnToPreviousPage gd s =
              addNewPromptLine (Some (js ''No previous page to return to.''))
                (s\<lparr>isGoingBack := True\<rparr>) \<and>
            storyHistory (displayStoryAndMenu gd k (returnToPreviousPage gd s)) = storyHistory s \<and>
            currentHistoryIndex (displayStoryAndMenu gd k (returnToPreviousPage gd s)) =
              currentHistoryIndex s)"
  proof (cases "currentHistoryIndex s > 0")
    case True
    let ?n = "nat (currentHistoryIndex s)"
    have n: "0 < ?n" "?n \<le> length (storyHistory s)" "?n - 1 < length (storyHistory s)"
      using True assms by (auto simp: wf_history_def)
    define p where "p = storyHistory s ! (?n - 1)"
    define s1 where "s1 = s\<lparr>isGoingBack := True, currentHistoryIndex := currentHistoryIndex s - 1\<rparr>"
    have p: "p \<noteq> []" using assms n(3) unfolding p_def by (metis nth_mem wf_history_def)
    have ne: "history_before s \<noteq> []" using n by (auto simp: history_before_def)
    have l: "last (history_before s) = p"
      using n ne by (simp add: history_before_def last_conv_nth min_def p_def)
    have b: "butlast (history_before s) = take (?n - 1) (storyHistory s)"
      using n by (simp add: history_before_def butlast_take)
    have i: "nat (currentHistoryIndex s - 1) = ?n - 1" using True by simp
    have r: "returnToPreviousPage gd s = displayStoryAndMenu gd p s1"
      using True n(3) p by (simp add: returnToPreviousPage_def goBackInHistory_def i p_def s1_def)
    have h: "storyHistory (displayStoryAndMenu gd p s1) = storyHistory s"
            "currentHistoryIndex (displayStoryAndMenu gd p s1) = currentHistoryIndex s - 1"
      using displayStoryAndMenu_going_back[of s1 gd p] by (simp_all add: s1_def)
    have hb: "history_before (displayStoryAndMenu gd p s1) = take (?n - 1) (storyHistory s)"
      by (simp only: history_before_def h i)
    have iv: "inventory (displayStoryAndMenu gd p s1) = inventory s"
      by (simp add: s1_def)
    show ?thesis
      using ne by (simp only: r l b h hb iv displayStoryAndMenu_currentStep simp_thms)
  next
    case False
    then have e: "history_before s = []" by (simp add: history_before_def)
    define s0 where
      "s0 = addNewPromptLine (Some (js ''No previous page to return to.'')) (s\<lparr>isGoingBack := True\<rparr>)"
    have r: "returnToPreviousPage gd s = s0"
      unfolding s0_def using False by (rule returnToPreviousPage_nothing_before)
    have f: "isGoingBack s0" "storyHistory s0 = storyHistory s"
            "currentHistoryIndex s0 = currentHistoryIndex s"
      by (simp_all add: s0_def addNewPromptLine_def)
    have d: "storyHistory (displayStoryAndMenu gd k s0) = storyHistory s \<and>
             currentHistoryIndex (displayStoryAndMenu gd k s0) = currentHistoryIndex s"
      using displayStoryAndMenu_going_back [OF f(1), of gd k] by (simp only: f)
    show ?thesis
      using e d by (simp only: r simp_thms) (simp only: s0_def simp_thms)
  qed
  from goes entry ending show ?thesis by blast
qed

text \<open>
  The theorem of C5 in the adventure. From step 2, reached from step 1, the entry
  \<^verbatim>\<open>b) Return to the previous page\<close> enters step 1. In the session just started, where
  step 1 has no step before it, \<open>returnToPreviousPage\<close> leaves the flag set and step 2,
  shown next, is not added to the history. At the ending reached from step 2, entering
  \<^verbatim>\<open>Return to the previous page\<close> only sends \<^verbatim>\<open>Invalid choice.\<close> to the prompt.
\<close>

theorem goBack_as_the_menus_run_it_witness:
  "wf_history (moved adventure) \<and> history_before (moved adventure) = [js ''1''] \<and>
   currentStep (returnToPreviousPage adventure (moved adventure)) = Some (js ''1'') \<and>
   history_before (returnToPreviousPage adventure (moved adventure)) = [] \<and>
   inventory (returnToPreviousPage adventure (moved adventure)) = inventory (moved adventure) \<and>
   index (currentMenuItems (press adventure ArrowDown (moved adventure)))
         (selectedMenuItemIndex (press adventure ArrowDown (moved adventure))) =
     Some (js ''b) Return to the previous page'') \<and>
   handleMenuNavigation adventure [] Enter (press adventure ArrowDown (moved adventure)) =
     Inr (returnToPreviousPage adventure (press adventure ArrowDown (moved adventure))) \<and>
   wf_history (started adventure) \<and> history_before (started adventure) = [] \<and>
   returnToPreviousPage adventure (started adventure) =
     addNewPromptLine (Some (js ''No previous page to return to.''))
       ((started adventure)\<lparr>isGoingBack := True\<rparr>) \<and>
   storyHistory (displayStoryAndMenu adventure (js ''2'')
                   (returnToPreviousPage adventure (started adventure))) =
     storyHistory (started adventure) \<and>
   wf_history (ended adventure) \<and>
   currentMenuItems (ended adventure) =
     [js ''Return to the previous page'', js ''Quit to the command prompt''] \<and>
   currentMenuType (ended adventure) = EndingOptions \<and>
   handleMenuNavigation adventure [] Enter (ended adventure) =
     Inr (addNewPromptLine (Some (js ''Invalid choice.'')) (ended adventure))"
proof -
  let ?m = "press adventure ArrowDown (moved adventure)"
  have w1: "wf_history (moved adventure)" by (rule wf_moved)
  have e1: "history_before (moved adventure) = [js ''1'']" by code_simp
  have w2: "wf_history (started adventure)" by (rule wf_started)
  have e2: "history_before (started adventure) = []" by code_simp
  have w3: "wf_history ?m" using wf_moved by (rule wf_press)
  have w4: "wf_history (ended adventure)" unfolding ended_def using wf_moved by (rule wf_press)
  have m: "currentMenuItems ?m \<noteq> [] \<and> currentMenuType ?m = StoryChoices \<and>
           currentStep ?m = Some (js ''2'') \<and>
           map_of (steps adventure) (js ''2'') = Some step_two \<and>
           \<not> selectedMenuItemIndex ?m < length (choices step_two) \<and>
           index (currentMenuItems ?m) (selectedMenuItemIndex ?m) =
             Some (js ''b) Return to the previous page'') \<and>
           includes_js (js ''b) Return to the previous page'') (js ''Return to the previous page'')"
    by code_simp
  have n: "currentMenuItems (ended adventure) =
             [js ''Return to the previous page'', js ''Quit to the command prompt''] \<and>
           currentMenuType (ended adventure) = EndingOptions"
    by code_simp
  from goBack_as_the_menus_run_it [OF w1, of adventure]
  have a: "currentStep (returnToPreviousPage adventure (moved adventure)) = Some (js ''1'') \<and>
           history_before (returnToPreviousPage adventure (moved adventure)) = [] \<and>
           inventory (returnToPreviousPage adventure (moved adventure)) =
             inventory (moved adventure)"
    using e1 by simp
  from goBack_as_the_menus_run_it [OF w2, of adventure "js ''2''"]
  have b: "returnToPreviousPage adventure (started adventure) =
             addNewPromptLine (Some (js ''No previous page to return to.''))
               ((started adventure)\<lparr>isGoingBack := True\<rparr>) \<and>
           storyHistory (displayStoryAndMenu adventure (js ''2'')
                           (returnToPreviousPage adventure (started adventure))) =
             storyHistory (started adventure)"
    using e2 by blast
  from goBack_as_the_menus_run_it
         [OF w3, of adventure _ "js ''2''" step_two "js ''b) Return to the previous page''" "[]"]
  have c: "handleMenuNavigation adventure [] Enter ?m = Inr (returnToPreviousPage adventure ?m)"
    using m by blast
  from goBack_as_the_menus_run_it [OF w4, of adventure _ _ _ _ "[]"]
  have d: "handleMenuNavigation adventure [] Enter (ended adventure) =
             Inr (addNewPromptLine (Some (js ''Invalid choice.'')) (ended adventure))"
    using n by blast
  show ?thesis using w1 e1 w2 e2 w4 a b c d m n by blast
qed

section \<open>Saving and resuming (C4)\<close>

text \<open>
  Claim C4 on the code. The session at step 2, reached from step 1, has the history
  \<^verbatim>\<open>["1", "2"]\<close> at index 1, and that is what \<^verbatim>\<open>Save & Quit\<close> writes. Loading the
  file again restores nothing of it: \<^verbatim>\<open>loadGameState\<close> is handed the parsed file where it
  expects a game name and a slot, finds no such key in \<^verbatim>\<open>localStorage\<close>, and the
  handler then shows the saved step, which starts a new history \<^verbatim>\<open>["2"]\<close> at index 0.
\<close>

theorem load_game_does_not_restore_history:
  "view (moved adventure) = (Some (js ''2''), [js ''1'', js ''2''], 1, [(js ''key'', 1)]) \<and>
   saved_storyHistory (fst (saveQuit adventure (moved adventure))) = Some [js ''1'', js ''2''] \<and>
   saved_currentHistoryIndex (fst (saveQuit adventure (moved adventure))) = Some 1 \<and>
   view (saved_and_resumed adventure (moved adventure)) =
     (Some (js ''2''), [js ''2''], 0, [(js ''key'', 1)])"
  by code_simp

section \<open>Dangling targets (C3)\<close>

text \<open>
  Claim C3 as stated fails. The only choice of the document \<open>dangling_text\<close> leads to
  \<^verbatim>\<open>STEP_9\<close>, which the document does not have. \<^verbatim>\<open>parseFile\<close> returns the
  document all the same, and the missing step shows during the traversal: entering the choice
  makes \<^verbatim>\<open>9\<close> the current step and calls \<^verbatim>\<open>addNewPromptLine\<close> with
  \<^verbatim>\<open>Error: Step 9 not found.\<close>
\<close>

theorem dangling_target_loads_counterexample:
  "parseFile dangling_text = Inr dangling \<and>
   fst (loadAdventureFile (Some (js ''game.adv'', dangling_text)) initialSession) = Some dangling \<and>
   map (target) (choices (snd (hd (steps dangling)))) = [js ''STEP_9''] \<and>
   map_of (steps dangling) (js ''9'') = None \<and>
   view (moved dangling) = (Some (js ''9''), [js ''1'', js ''9''], 1, []) \<and>
   last (terminal (moved dangling)) = PromptLine (Some (js ''Error: Step 9 not found.''))"
  by code_simp

text \<open>
  Claim C3, as the code has it. The validation that ends \<^verbatim>\<open>parseFile\<close> accepts every
  document with a game name, a main menu entry and a step, whatever its choices lead to. A
  target that names no step shows when it is entered: \<^verbatim>\<open>displayStoryAndMenu\<close> makes it
  the current step, calls \<^verbatim>\<open>addNewPromptLine\<close> with \<^verbatim>\<open>Error: Step ... not found.\<close>
  and leaves the menu as it was.
\<close>

theorem dangling_target_surfaces_at_traversal:
  "(gameName g \<noteq> [] \<and> mainMenuItems g \<noteq> [] \<and> steps g \<noteq> [] \<longrightarrow> finalValidation g = Inr g) \<and>
   (map_of (steps g) k = None \<longrightarrow>
      currentStep (displayStoryAndMenu g k s) = Some k \<and>
      terminal (displayStoryAndMenu g k s) =
        terminal s @ [PromptLine (Some (js ''Error: Step '' @ k @ js '' not found.''))] \<and>
      currentMenuItems (displayStoryAndMenu g k s) = currentMenuItems s \<and>
      currentMenuType (displayStoryAndMenu g k s) = currentMenuType s)"
  by (auto simp: finalValidation_def displayStoryAndMenu_def Let_def addNewPromptLine_def
        pushStoryToHistory_def split: option.splits)

text \<open>The theorem of C3 at the document \<open>dangling\<close> and its missing step 9.\<close>

theorem dangling_target_surfaces_witness:
  "gameName dangling \<noteq> [] \<and> mainMenuItems dangling \<noteq> [] \<and> steps dangling \<noteq> [] \<and>
   finalValidation dangling = Inr dangling \<and>
   map_of (steps dangling) (js ''9'') = None \<and>
   currentStep (displayStoryAndMenu dangling (js ''9'') (started dangling)) = Some (js ''9'') \<and>
   terminal (displayStoryAndMenu dangling (js ''9'') (started dangling)) =
     terminal (started dangling) @
       [PromptLine (Some (js ''Error: Step '' @ js ''9'' @ js '' not found.''))]"
proof -
  have h1: "gameName dangling \<noteq> [] \<and> mainMenuItems dangling \<noteq> [] \<and> steps dangling \<noteq> []"
    by code_simp
  have h2: "map_of (steps dangling) (js ''9'') = None" by code_simp
  from dangling_target_surfaces_at_traversal [of dangling "js ''9''" "started dangling"]
  show ?thesis using h1 h2 by blast
qed

section \<open>Duplicate labels (C6)\<close>

text \<open>
  Claim C6 as stated fails. The document \<open>duplicate_text\<close> has two choices labelled
  \<^verbatim>\<open>A\<close> in one block; \<^verbatim>\<open>parseChoices\<close> returns both, and \<^verbatim>\<open>parseFile\<close> returns
  a document whose first step has them.
\<close>

theorem duplicate_labels_load_counterexample:
  "map label (projr (parseChoices [js ''A) Open the door -> STEP_2'',
                                    js ''A) Go back to sleep -> STEP_3''])) = [js ''A'', js ''A''] \<and>
   \<not> isl (parseChoices [js ''A) Open the door -> STEP_2'', js ''A) Go back to sleep -> STEP_3'']) \<and>
   \<not> isl (parseFile duplicate_text) \<and>
   map (\<lambda>c. (label c, target c)) (choices (snd (hd (steps (projr (parseFile duplicate_text)))))) =
     [(js ''A'', js ''STEP_2''), (js ''A'', js ''STEP_3'')]"
  by code_simp

text \<open>
  Claim C6, as the code has it. \<^verbatim>\<open>parseChoices\<close> does not compare labels. When every
  line of a block is blank or matches the grammar, it returns the choices of the lines one
  after the other, each line read on its own: two lines with the same label give two choices.
\<close>

theorem parseChoices_keeps_every_matching_line:
  "list_all choice_line_ok ls \<Longrightarrow> parseChoices ls = Inr (concat (map choicesOfLine ls))"
  using forEach_choice_lines_ok[of ls "[]"] by (simp add: parseChoices_def)

text \<open>The theorem of C6 at a block of two lines labelled \<^verbatim>\<open>A\<close>.\<close>

theorem parseChoices_keeps_every_matching_line_witness:
  "list_all choice_line_ok [js ''A) Open the door -> STEP_2'', js ''A) Go back to sleep -> STEP_3''] \<and>
   parseChoices [js ''A) Open the door -> STEP_2'', js ''A) Go back to sleep -> STEP_3''] =
     Inr (concat (map choicesOfLine
            [js ''A) Open the door -> STEP_2'', js ''A) Go back to sleep -> STEP_3'']))"
proof -
  have h: "list_all choice_line_ok
             [js ''A) Open the door -> STEP_2'', js ''A) Go back to sleep -> STEP_3'']"
    by code_simp
  from parseChoices_keeps_every_matching_line [OF h] h show ?thesis by blast
qed

section \<open>Malformed choice lines (C8)\<close>



section \<open>Random events with a chance of zero (C9)\<close>

text \<open>
  Claim C9. A line of a \<^verbatim>\<open>RANDOM_EVENT\<close> block whose \<^verbatim>\<open>chance\<close> is read as the
  number 0, written as \<^verbatim>\<open>0\<close> or as a literal that rounds to it, is rejected with
  \<^verbatim>\<open>Malformed random event line: "..."\<close>, the very error of a line that has no
  \<^verbatim>\<open>chance\<close> at all; a block made of that line alone is rejected with it.
\<close>

theorem zero_chance_is_malformed:
  assumes "trim line \<noteq> []"
    and "draft_chance (eventOfLine (trim line)) = Some c \<and> is_zero c \<or>
         draft_chance (eventOfLine (trim line)) = None"
  shows "parseRandomEventLine line events =
           Inl (Error (quoted (js ''Malformed random event line'') (trim line))) \<and>
         (NEWLINE \<notin> set line \<longrightarrow>
            parseRandomEvent line =
              Inl (Error (quoted (js ''Malformed random event line'') (trim line))))"
proof -
  have l: "\<And>evs. parseRandomEventLine line evs =
           Inl (Error (quoted (js ''Malformed random event line'') (trim line)))"
    using assms
    by (auto simp: parseRandomEventLine_def Let_def number_truthy_def
             split: option.splits jsnumber.splits)
  show ?thesis
    by (simp add: l parseRandomEvent_def split_no_sep)
qed

text \<open>
  The theorem of C9 at \<^verbatim>\<open>chance: 0, outcome: STEP_2\<close>, at
  \<^verbatim>\<open>chance: 1e-400, outcome: STEP_2\<close>, whose chance rounds to 0, and at
  \<^verbatim>\<open>outcome: STEP_2\<close>; with \<^verbatim>\<open>chance: 0.5\<close> and with \<^verbatim>\<open>chance: 3e-324\<close>, which
  rounds to the least positive number, the line is accepted.
\<close>

theorem zero_chance_is_malformed_witness:
  "draft_chance (eventOfLine (trim (js ''chance: 0, outcome: STEP_2''))) = Some (Dec 0 0) \<and>
   is_zero (Dec 0 0) \<and>
   parseRandomEvent (js ''chance: 0, outcome: STEP_2'') =
     Inl (Error (quoted (js ''Malformed random event line'')
                   (trim (js ''chance: 0, outcome: STEP_2'')))) \<and>
   draft_chance (eventOfLine (trim (js ''chance: 1e-400, outcome: STEP_2''))) =
     Some (Dec 1 (- 400)) \<and>
   is_zero (Dec 1 (- 400)) \<and>
   parseRandomEvent (js ''chance: 1e-400, outcome: STEP_2'') =
     Inl (Error (quoted (js ''Malformed random event line'')
                   (trim (js ''chance: 1e-400, outcome: STEP_2'')))) \<and>
   draft_chance (eventOfLine (trim (js ''outcome: STEP_2''))) = None \<and>
   parseRandomEvent (js ''outcome: STEP_2'') =
     Inl (Error (quoted (js ''Malformed random event line'') (trim (js ''outcome: STEP_2'')))) \<and>
   parseRandomEvent (js ''chance: 0.5, outcome: STEP_2'') =
     Inr [\<lparr>chance = Dec 5 (- 1), outcome = js ''STEP_2''\<rparr>] \<and>
   parseRandomEvent (js ''chance: 3e-324, outcome: STEP_2'') =
     Inr [\<lparr>chance = Dec 3 (- 324), outcome = js ''STEP_2''\<rparr>]"
proof -
  have a1: "trim (js ''chance: 0, outcome: STEP_2'') \<noteq> []" by code_simp
  have a2: "draft_chance (eventOfLine (trim (js ''chance: 0, outcome: STEP_2''))) = Some (Dec 0 0)"
    by code_simp
  have a3: "NEWLINE \<notin> set (js ''chance: 0, outcome: STEP_2'')" by code_simp
  have a4: "is_zero (Dec 0 0)" by (simp add: is_zero_def rounds_to_zero_def)
  have u1: "trim (js ''chance: 1e-400, outcome: STEP_2'') \<noteq> []" by code_simp
  have u2: "draft_chance (eventOfLine (trim (js ''chance: 1e-400, outcome: STEP_2''))) =
              Some (Dec 1 (- 400))"
    by code_simp
  have u3: "NEWLINE \<notin> set (js ''chance: 1e-400, outcome: STEP_2'')" by code_simp
  have u4: "is_zero (Dec 1 (- 400))" by (simp add: is_zero_def rounds_to_zero_def)
  have b1: "trim (js ''outcome: STEP_2'') \<noteq> []" by code_simp
  have b2: "draft_chance (eventOfLine (trim (js ''outcome: STEP_2''))) = None" by code_simp
  have b3: "NEWLINE \<notin> set (js ''outcome: STEP_2'')" by code_simp
  have c: "parseRandomEvent (js ''chance: 0.5, outcome: STEP_2'') =
             Inr [\<lparr>chance = Dec 5 (- 1), outcome = js ''STEP_2''\<rparr>]"
    by code_simp
  have d: "parseRandomEvent (js ''chance: 3e-324, outcome: STEP_2'') =
             Inr [\<lparr>chance = Dec 3 (- 324), outcome = js ''STEP_2''\<rparr>]"
    by code_simp
  note t1 = zero_chance_is_malformed
              [OF a1 disjI1 [OF conjI [OF a2 a4]], of "[]", THEN conjunct2, THEN mp, OF a3]
  note t2 = zero_chance_is_malformed
              [OF u1 disjI1 [OF conjI [OF u2 u4]], of "[]", THEN conjunct2, THEN mp, OF u3]
  note t3 = zero_chance_is_malformed [OF b1 disjI2 [OF b2], of "[]", THEN conjunct2, THEN mp, OF b3]
  show ?thesis
    by (intro conjI) (rule a2, rule a4, rule t1, rule u2, rule u4, rule t2, rule b2, rule t3,
                      rule c, rule d)
qed

end
